theory Spec2Isabelle
  imports Main "HOL-Library.Word"
begin

section \<open>OpenGL symbolic constants\<close>

text \<open>
  The \<open>GL_xxx\<close> identifiers used by \<open>uniform.cpp\<close> and by the shader implementation come
  from the OpenGL headers (\<open>glee/GLee.h\<close>), which are not part of the repository. They
  carry the values that the OpenGL 2.0 specification and the extension
  \<open>GL_EXT_geometry_shader4\<close> assign to them.
\<close>

definition GL_INT :: int where "GL_INT = 0x1404"
definition GL_FLOAT :: int where "GL_FLOAT = 0x1406"
definition GL_FLOAT_VEC2 :: int where "GL_FLOAT_VEC2 = 0x8B50"
definition GL_FLOAT_VEC3 :: int where "GL_FLOAT_VEC3 = 0x8B51"
definition GL_FLOAT_VEC4 :: int where "GL_FLOAT_VEC4 = 0x8B52"
definition GL_INT_VEC2 :: int where "GL_INT_VEC2 = 0x8B53"
definition GL_INT_VEC3 :: int where "GL_INT_VEC3 = 0x8B54"
definition GL_INT_VEC4 :: int where "GL_INT_VEC4 = 0x8B55"
definition GL_BOOL :: int where "GL_BOOL = 0x8B56"
definition GL_BOOL_VEC2 :: int where "GL_BOOL_VEC2 = 0x8B57"
definition GL_BOOL_VEC3 :: int where "GL_BOOL_VEC3 = 0x8B58"
definition GL_BOOL_VEC4 :: int where "GL_BOOL_VEC4 = 0x8B59"
definition GL_FLOAT_MAT2 :: int where "GL_FLOAT_MAT2 = 0x8B5A"
definition GL_FLOAT_MAT3 :: int where "GL_FLOAT_MAT3 = 0x8B5B"
definition GL_FLOAT_MAT4 :: int where "GL_FLOAT_MAT4 = 0x8B5C"
definition GL_SAMPLER_1D :: int where "GL_SAMPLER_1D = 0x8B5D"
definition GL_SAMPLER_2D :: int where "GL_SAMPLER_2D = 0x8B5E"
definition GL_SAMPLER_3D :: int where "GL_SAMPLER_3D = 0x8B5F"
definition GL_SAMPLER_CUBE :: int where "GL_SAMPLER_CUBE = 0x8B60"
definition GL_SAMPLER_1D_SHADOW :: int where "GL_SAMPLER_1D_SHADOW = 0x8B61"
definition GL_SAMPLER_2D_SHADOW :: int where "GL_SAMPLER_2D_SHADOW = 0x8B62"

definition GL_TRIANGLE_STRIP :: int where "GL_TRIANGLE_STRIP = 0x0005"
definition GL_LINE_STRIP_ADJACENCY :: int where "GL_LINE_STRIP_ADJACENCY = 0x000B"

section \<open>CUniform (uniform.h, uniform.cpp)\<close>

text \<open>
  The payload \<open>m_data\<close> is the union \<open>dataUnit_t\<close> of \<open>GLfloat _float[16]\<close> and
  \<open>GLint _int[4]\<close>: both members start at the same address and both element types are
  four bytes wide. The model keeps the sixteen four-byte cells as raw 32 bit words:
  \<open>_float[i]\<close> is cell \<open>i\<close> read as an IEEE-754 single, \<open>_int[i]\<close> (for \<open>i < 4\<close>) is
  the same cell \<open>i\<close> read as a two's complement integer. The float literals of the
  constructor are the bit patterns of their nearest singles.
\<close>

record CUniform =
  m_name :: string
  m_type :: int
  m_location :: int
  m_data :: "32 word list"

definition float_0_1 :: "32 word" where "float_0_1 = 0x3DCCCCCD"
definition float_0_2 :: "32 word" where "float_0_2 = 0x3E4CCCCD"
definition float_0_3 :: "32 word" where "float_0_3 = 0x3E99999A"
definition float_0_4 :: "32 word" where "float_0_4 = 0x3ECCCCCD"
definition float_1_0 :: "32 word" where "float_1_0 = 0x3F800000"

text \<open>
  \<open>CUniform::CUniform( name, type, location )\<close>. The second test is the C++ expression
  \<open>m_type == GL_FLOAT_VEC2 || GL_FLOAT_VEC3 || GL_FLOAT_VEC4\<close>: the two last operands
  are the constants themselves, converted to \<open>bool\<close> (nonzero is true). A chained
  assignment \<open>a[0] = a[3] = 1.0f\<close> stores right to left.
\<close>

definition CUniform_ctor :: "string \<Rightarrow> int \<Rightarrow> int \<Rightarrow> CUniform" where
  "CUniform_ctor name type location =
    (let d0 = replicate 16 0;
         d1 = (if type = GL_FLOAT then d0[0 := float_0_1] else d0);
         d2 = (if type = GL_FLOAT_VEC2 \<or> GL_FLOAT_VEC3 \<noteq> 0 \<or> GL_FLOAT_VEC4 \<noteq> 0
               then d1[0 := float_0_1, 1 := float_0_2, 2 := float_0_3, 3 := float_0_4]
               else d1);
         d3 = (if type = GL_FLOAT_MAT2 then d2[3 := float_1_0, 0 := float_1_0] else d2);
         d4 = (if type = GL_FLOAT_MAT3
               then d3[8 := float_1_0, 4 := float_1_0, 0 := float_1_0] else d3);
         d5 = (if type = GL_FLOAT_MAT4
               then d4[15 := float_1_0, 10 := float_1_0, 5 := float_1_0, 0 := float_1_0]
               else d4)
     in \<lparr>m_name = name, m_type = type, m_location = location, m_data = d5\<rparr>)"

text \<open>\<open>CUniform::CUniform( const CUniform & u, int location )\<close>: a copy with a new location.\<close>

definition CUniform_copy :: "CUniform \<Rightarrow> int \<Rightarrow> CUniform" where
  "CUniform_copy u location =
    \<lparr>m_name = m_name u, m_type = m_type u, m_location = location, m_data = m_data u\<rparr>"

text \<open>
  The component accessors assert \<open>component >= 0 && component < 4\<close>; a failed assertion
  is the value \<open>None\<close>. \<open>setValueAsFloat\<close> receives the value already converted to a
  single (\<open>static_cast<float>\<close>).
\<close>

definition getValueAsInt :: "int \<Rightarrow> CUniform \<Rightarrow> int option" where
  "getValueAsInt component u =
    (if component \<ge> 0 \<and> component < 4 then Some (sint (m_data u ! nat component)) else None)"

definition setValueAsFloat :: "int \<Rightarrow> 32 word \<Rightarrow> CUniform \<Rightarrow> CUniform option" where
  "setValueAsFloat component v u =
    (if component \<ge> 0 \<and> component < 4
     then Some (u\<lparr>m_data := (m_data u)[nat component := v]\<rparr>) else None)"

datatype baseType_e =
  BASE_TYPE_BAD | BASE_TYPE_BOOL | BASE_TYPE_INT | BASE_TYPE_FLOAT | BASE_TYPE_SAMPLER

definition getBaseType :: "CUniform \<Rightarrow> baseType_e" where
  "getBaseType u =
    (if m_type u = GL_BOOL \<or> m_type u = GL_BOOL_VEC2 \<or> m_type u = GL_BOOL_VEC3
        \<or> m_type u = GL_BOOL_VEC4 then BASE_TYPE_BOOL
     else if m_type u = GL_INT \<or> m_type u = GL_INT_VEC2 \<or> m_type u = GL_INT_VEC3
        \<or> m_type u = GL_INT_VEC4 then BASE_TYPE_INT
     else if m_type u = GL_FLOAT \<or> m_type u = GL_FLOAT_VEC2 \<or> m_type u = GL_FLOAT_VEC3
        \<or> m_type u = GL_FLOAT_VEC4 \<or> m_type u = GL_FLOAT_MAT2 \<or> m_type u = GL_FLOAT_MAT3
        \<or> m_type u = GL_FLOAT_MAT4 then BASE_TYPE_FLOAT
     else BASE_TYPE_BAD)"

definition isMatrix :: "CUniform \<Rightarrow> bool" where
  "isMatrix u =
    (m_type u = GL_FLOAT_MAT2 \<or> m_type u = GL_FLOAT_MAT3 \<or> m_type u = GL_FLOAT_MAT4)"

text \<open>
  The number of payload cells that \<open>applyToGL\<close> hands to the \<open>glUniform*\<close> entry point
  selected by the type tag; \<open>None\<close> for a tag outside the \<open>switch\<close>, for which no call
  is made.
\<close>

definition uniformCells :: "int \<Rightarrow> nat option" where
  "uniformCells type =
    (if type = GL_FLOAT then Some 1
     else if type = GL_FLOAT_VEC2 then Some 2
     else if type = GL_FLOAT_VEC3 then Some 3
     else if type = GL_FLOAT_VEC4 then Some 4
     else if type = GL_FLOAT_MAT2 then Some 4
     else if type = GL_FLOAT_MAT3 then Some 9
     else if type = GL_FLOAT_MAT4 then Some 16
     else if type = GL_INT then Some 1
     else if type = GL_INT_VEC2 then Some 2
     else if type = GL_INT_VEC3 then Some 3
     else if type = GL_INT_VEC4 then Some 4
     else if type = GL_BOOL then Some 1
     else if type = GL_BOOL_VEC2 then Some 2
     else if type = GL_BOOL_VEC3 then Some 3
     else if type = GL_BOOL_VEC4 then Some 4
     else if type = GL_SAMPLER_1D \<or> type = GL_SAMPLER_2D \<or> type = GL_SAMPLER_3D
        \<or> type = GL_SAMPLER_CUBE \<or> type = GL_SAMPLER_1D_SHADOW
        \<or> type = GL_SAMPLER_2D_SHADOW then Some 1
     else None)"

text \<open>
  \<open>QString("time").compare( name, Qt::CaseInsensitive ) == 0\<close>. Qt folds the case of
  each character; against the ASCII literal \<open>time\<close> only the ASCII letters can make a
  difference, so the model folds \<open>A\<close> to \<open>Z\<close>.
\<close>

definition foldCase :: "char \<Rightarrow> char" where
  "foldCase c =
    (let n = (of_char c :: nat) in if 65 \<le> n \<and> n \<le> 90 then char_of (n + 32) else c)"

definition isTimeName :: "string \<Rightarrow> bool" where
  "isTimeName name = (map foldCase name = ''time'')"

text \<open>\<open>CUniformWidget::acceptsUniform\<close> (uniformwidget.cpp): which uniforms the editor offers.\<close>

definition acceptsUniform :: "CUniform \<Rightarrow> bool" where
  "acceptsUniform u =
    (if m_location u = -1 then False
     else if m_type u = GL_FLOAT \<and> isTimeName (m_name u) then False
     else if isMatrix u \<and> getBaseType u = BASE_TYPE_FLOAT then True
     else (case getBaseType u of
             BASE_TYPE_BOOL \<Rightarrow> True
           | BASE_TYPE_INT \<Rightarrow> True
           | BASE_TYPE_FLOAT \<Rightarrow> True
           | _ \<Rightarrow> False))"

section \<open>The graphics driver\<close>

text \<open>
  Every OpenGL entry point that \<open>CShader\<close> calls. The shader kinds and the queried
  parameter names are kept symbolic.
\<close>

datatype shader_kind = GL_VERTEX_SHADER | GL_GEOMETRY_SHADER_EXT | GL_FRAGMENT_SHADER

datatype query =
    GL_COMPILE_STATUS | GL_LINK_STATUS | GL_VALIDATE_STATUS
  | GL_ACTIVE_UNIFORMS | GL_ACTIVE_ATTRIBUTES | GL_MAX_GEOMETRY_OUTPUT_VERTICES_EXT

datatype program_parameter =
  GL_GEOMETRY_VERTICES_OUT_EXT | GL_GEOMETRY_INPUT_TYPE_EXT | GL_GEOMETRY_OUTPUT_TYPE_EXT

datatype gl_call =
    glUseProgram nat
  | glDeleteProgram nat
  | glDeleteShader nat
  | glCreateProgram
  | glCreateShader shader_kind
  | glShaderSource nat string
  | glCompileShader nat
  | glGetShaderInfoLog nat
  | glGetShaderiv nat query
  | glAttachShader nat nat
  | glGetIntegerv query
  | glProgramParameteriEXT nat program_parameter int
  | glLinkProgram nat
  | glValidateProgram nat
  | glGetProgramInfoLog nat
  | glGetProgramiv nat query
  | glGetAttribLocation nat string
  | glGetActiveUniform nat nat
  | glGetUniformLocation nat string
  | glGetActiveAttrib nat nat
  | glUniform int int "32 word list"

text \<open>
  The driver is outside the repository. For one build attempt it is the record of the
  answers it gives: the handles it creates, each stage's compile status and info log
  (by stage index), the link and validation results, the reflected uniforms and
  attributes (name, array size, type), and \<open>throws\<close>, the calls at which it raises
  the exception that \<open>compileAndLink\<close> guards against.
\<close>

record driver =
  throws :: "gl_call \<Rightarrow> bool"
  createProgram :: nat
  createShader :: "nat \<Rightarrow> nat"
  shaderInfoLog :: "nat \<Rightarrow> string"
  compileStatus :: "nat \<Rightarrow> bool"
  linkInfoLog :: string
  linkStatus :: bool
  validateStatus :: bool
  validateInfoLog :: string
  attribLocation :: "string \<Rightarrow> int"
  activeUniforms :: int
  activeUniform :: "nat \<Rightarrow> string \<times> int \<times> int"
  uniformLocation :: "string \<Rightarrow> int"
  activeAttributes :: int
  activeAttrib :: "nat \<Rightarrow> string \<times> int \<times> int"

definition noFault :: "driver \<Rightarrow> bool" where
  "noFault d = (\<forall>c. \<not> throws d c)"

section \<open>CShader (the IShader implementation)\<close>

record VertexAttribLocations =
  tangent :: int
  bitangent :: int

text \<open>\<open>VertexAttribLocations( int Tangent=-1, int Bitangent=-1 )\<close>\<close>

definition VertexAttribLocations_ctor :: "int \<Rightarrow> int \<Rightarrow> VertexAttribLocations" where
  "VertexAttribLocations_ctor Tangent Bitangent = \<lparr>tangent = Tangent, bitangent = Bitangent\<rparr>"

text \<open>
  The build log \<open>m_log\<close> is kept as the sequence of the pieces appended to it. A piece
  built from a format with one placeholder is its text; the lines that
  \<open>logActiveUniforms\<close> and \<open>logActiveAttributes\<close> format from several arguments keep
  their arguments (index, name, location, type, array size).
\<close>

datatype log_piece =
    Text string
  | UniformLine nat string int int int
  | AttribLine nat string int int

text \<open>
  The state of a \<open>CShader\<close>. \<open>m_timer\<close> counts the restarts of the \<open>QTime\<close>;
  \<open>glCalls\<close> is the sequence of driver calls made so far.
\<close>

record CShader =
  m_activeUniforms :: "CUniform list"
  m_oldUniforms :: "CUniform list"
  m_geometryShaderAvailable :: bool
  m_linked :: bool
  m_log :: "log_piece list"
  m_timer :: nat
  m_num_output :: int
  m_geometryInputType :: int
  m_geometryOutputType :: int
  m_attribLocations :: VertexAttribLocations
  m_shaderSources :: "nat \<Rightarrow> string"
  m_shaders :: "nat \<Rightarrow> nat"
  m_program :: nat
  glCalls :: "gl_call list"

definition TYPE_VERTEX :: nat where "TYPE_VERTEX = 0"
definition TYPE_GEOMETRY :: nat where "TYPE_GEOMETRY = 1"
definition TYPE_FRAGMENT :: nat where "TYPE_FRAGMENT = 2"
definition MAX_SHADER_TYPES :: nat where "MAX_SHADER_TYPES = 3"

text \<open>\<open>CShader::CShader\<close>; the \<open>QString\<close> and \<open>QVector\<close> members start empty.\<close>

definition CShader_ctor :: CShader where
  "CShader_ctor =
    \<lparr>m_activeUniforms = [], m_oldUniforms = [], m_geometryShaderAvailable = False,
     m_linked = False, m_log = [], m_timer = 0, m_num_output = 4,
     m_geometryInputType = GL_LINE_STRIP_ADJACENCY, m_geometryOutputType = GL_TRIANGLE_STRIP,
     m_attribLocations = VertexAttribLocations_ctor (-1) (-1),
     m_shaderSources = (\<lambda>i. []), m_shaders = (\<lambda>i. 0), m_program = 0, glCalls = []\<rparr>"

subsection \<open>Control flow: returning, throwing, aborting\<close>

text \<open>
  A member function runs on the state and either returns a value, or leaves by a C++
  exception raised in the driver (\<open>Thrown\<close>), or stops the process at a failed
  \<open>assert\<close> (\<open>Aborted\<close>). In each case the state reached so far is kept.
\<close>

datatype 'a outcome = Returned 'a | Thrown | Aborted

type_synonym 'a action = "CShader \<Rightarrow> 'a outcome \<times> CShader"

definition ret :: "'a \<Rightarrow> 'a action" where
  "ret x s = (Returned x, s)"

definition seq :: "'a action \<Rightarrow> ('a \<Rightarrow> 'b action) \<Rightarrow> 'b action" where
  "seq m f s =
    (case m s of
       (Returned x, s') \<Rightarrow> f x s'
     | (Thrown, s') \<Rightarrow> (Thrown, s')
     | (Aborted, s') \<Rightarrow> (Aborted, s'))"

definition assign :: "(CShader \<Rightarrow> CShader) \<Rightarrow> unit action" where
  "assign f s = (Returned (), f s)"

definition rd :: "(CShader \<Rightarrow> 'a action) \<Rightarrow> 'a action" where
  "rd f s = f s s"

text \<open>
  \<open>ret\<close> returns a value, \<open>seq\<close> runs one action after another and stops at an
  exception or an abort, \<open>assign\<close> is an assignment to members, \<open>rd\<close> reads the
  current state. \<open>gl d c\<close> is the driver call \<open>c\<close>: it is recorded in \<open>glCalls\<close>, and
  it raises an exception when the driver \<open>d\<close> does so at this call. The values a call
  returns are read from \<open>d\<close> where they are used.
\<close>

definition gl :: "driver \<Rightarrow> gl_call \<Rightarrow> unit action" where
  "gl d c s = (if throws d c then Thrown else Returned (), s\<lparr>glCalls := glCalls s @ [c]\<rparr>)"

definition logAppend :: "log_piece \<Rightarrow> unit action" where
  "logAppend p = assign (\<lambda>s. s\<lparr>m_log := m_log s @ [p]\<rparr>)"

subsection \<open>Shader type symbols\<close>

definition toGlShaderType :: "nat \<Rightarrow> shader_kind option" where
  "toGlShaderType symbol =
    (if symbol = TYPE_VERTEX then Some GL_VERTEX_SHADER
     else if symbol = TYPE_GEOMETRY then Some GL_GEOMETRY_SHADER_EXT
     else if symbol = TYPE_FRAGMENT then Some GL_FRAGMENT_SHADER
     else None)"

definition isShaderTypeAvailable :: "CShader \<Rightarrow> nat \<Rightarrow> bool" where
  "isShaderTypeAvailable s type =
    (if type = TYPE_VERTEX \<or> type = TYPE_FRAGMENT then True
     else if type = TYPE_GEOMETRY then m_geometryShaderAvailable s
     else False)"

definition getShaderTypeName :: "nat \<Rightarrow> string" where
  "getShaderTypeName symbol =
    (if symbol = TYPE_VERTEX then ''Vertex Shader''
     else if symbol = TYPE_GEOMETRY then ''Geometry Shader''
     else if symbol = TYPE_FRAGMENT then ''Fragment Shader''
     else ''<bad shader type>'')"

definition setShaderSource :: "int \<Rightarrow> string \<Rightarrow> CShader \<Rightarrow> CShader" where
  "setShaderSource shaderType src s =
    (if shaderType \<ge> 0 \<and> shaderType < int MAX_SHADER_TYPES
     then s\<lparr>m_shaderSources := (m_shaderSources s)(nat shaderType := src)\<rparr>
     else s)"

subsection \<open>deactivateProgram\<close>

fun deleteShaderObjects :: "driver \<Rightarrow> nat list \<Rightarrow> unit action" where
  "deleteShaderObjects d [] = ret ()"
| "deleteShaderObjects d (i # rest) =
    seq (rd (\<lambda>s.
           if m_shaders s i \<noteq> 0
           then seq (gl d (glDeleteShader (m_shaders s i)))
                  (\<lambda>_. assign (\<lambda>s. s\<lparr>m_shaders := (m_shaders s)(i := 0)\<rparr>))
           else ret ()))
      (\<lambda>_. deleteShaderObjects d rest)"

definition deactivateProgram :: "driver \<Rightarrow> unit action" where
  "deactivateProgram d =
    seq (assign (\<lambda>s. s\<lparr>m_linked := False,
                        m_attribLocations := VertexAttribLocations_ctor (-1) (-1)\<rparr>)) (\<lambda>_.
    seq (gl d (glUseProgram 0)) (\<lambda>_.
    seq (rd (\<lambda>s.
           if m_program s \<noteq> 0
           then seq (gl d (glDeleteProgram (m_program s)))
                  (\<lambda>_. assign (\<lambda>s. s\<lparr>m_program := 0\<rparr>))
           else ret ())) (\<lambda>_.
    deleteShaderObjects d [0..<MAX_SHADER_TYPES])))"

subsection \<open>Compiling the stages\<close>

text \<open>
  \<open>compileAndAttachShader( shaderType )\<close>. The driver's handle for the stage is
  \<open>createShader d shaderType\<close>, its info log \<open>shaderInfoLog d shaderType\<close> (the driver
  writes at most 4095 characters of it into \<open>text\<close>), its compile status
  \<open>compileStatus d shaderType\<close>.
\<close>

definition compileAndAttachShader :: "driver \<Rightarrow> nat \<Rightarrow> bool action" where
  "compileAndAttachShader d shaderType =
    rd (\<lambda>s.
      if m_shaders s shaderType \<noteq> 0 then (\<lambda>s. (Aborted, s))
      else if \<not> isShaderTypeAvailable s shaderType then ret True
      else if m_shaderSources s shaderType = [] then ret True
      else
        seq (logAppend (Text (''Compiling '' @ getShaderTypeName shaderType @ ''\<newline>''))) (\<lambda>_.
        (case toGlShaderType shaderType of
           None \<Rightarrow> (\<lambda>s. (Aborted, s))
         | Some kind \<Rightarrow>
        seq (gl d (glCreateShader kind)) (\<lambda>_.
        seq (assign (\<lambda>s. s\<lparr>m_shaders :=
                            (m_shaders s)(shaderType := createShader d shaderType)\<rparr>)) (\<lambda>_.
        rd (\<lambda>s.
          if m_shaders s shaderType = 0
          then seq (logAppend (Text (''ERROR: failed on glCreateShader( ''
                                   @ getShaderTypeName shaderType @ '' )\<newline>'')))
                 (\<lambda>_. ret False)
          else
            seq (gl d (glShaderSource (m_shaders s shaderType)
                                      (m_shaderSources s shaderType))) (\<lambda>_.
            seq (gl d (glCompileShader (m_shaders s shaderType))) (\<lambda>_.
            seq (gl d (glGetShaderInfoLog (m_shaders s shaderType))) (\<lambda>_.
            seq (logAppend (Text (shaderInfoLog d shaderType @ ''\<newline>''))) (\<lambda>_.
            seq (gl d (glGetShaderiv (m_shaders s shaderType) GL_COMPILE_STATUS)) (\<lambda>_.
            if compileStatus d shaderType
            then seq (gl d (glAttachShader (m_program s) (m_shaders s shaderType)))
                   (\<lambda>_. ret True)
            else ret False)))))))))))"

text \<open>The loop \<open>for( i = 0 ; i < MAX_SHADER_TYPES ; i++ )\<close> of \<open>compileAndLink2\<close>.\<close>

fun compileStages :: "driver \<Rightarrow> nat list \<Rightarrow> bool \<Rightarrow> bool action" where
  "compileStages d [] totalResult = ret totalResult"
| "compileStages d (i # rest) totalResult =
    seq (compileAndAttachShader d i)
      (\<lambda>result. compileStages d rest (totalResult \<and> result))"

subsection \<open>Linking and validating\<close>

definition setupProgramParameters :: "driver \<Rightarrow> unit action" where
  "setupProgramParameters d =
    rd (\<lambda>s.
      if m_geometryShaderAvailable s
      then
        seq (gl d (glGetIntegerv GL_MAX_GEOMETRY_OUTPUT_VERTICES_EXT)) (\<lambda>_.
        seq (gl d (glProgramParameteriEXT (m_program s) GL_GEOMETRY_VERTICES_OUT_EXT
                     (m_num_output s))) (\<lambda>_.
        seq (gl d (glProgramParameteriEXT (m_program s) GL_GEOMETRY_INPUT_TYPE_EXT
                     (m_geometryInputType s))) (\<lambda>_.
        gl d (glProgramParameteriEXT (m_program s) GL_GEOMETRY_OUTPUT_TYPE_EXT
                     (m_geometryOutputType s)))))
      else ret ())"

fun logUniformLines :: "driver \<Rightarrow> nat list \<Rightarrow> unit action" where
  "logUniformLines d [] = ret ()"
| "logUniformLines d (i # rest) =
    seq (rd (\<lambda>s. gl d (glGetActiveUniform (m_program s) i))) (\<lambda>_.
    (case activeUniform d i of (name, arraySize, type) \<Rightarrow>
    seq (rd (\<lambda>s. gl d (glGetUniformLocation (m_program s) name))) (\<lambda>_.
    seq (logAppend (UniformLine i name (uniformLocation d name) type arraySize)) (\<lambda>_.
    logUniformLines d rest))))"

definition logActiveUniforms :: "driver \<Rightarrow> unit action" where
  "logActiveUniforms d =
    seq (rd (\<lambda>s. gl d (glGetProgramiv (m_program s) GL_ACTIVE_UNIFORMS))) (\<lambda>_.
    seq (logAppend (Text ''\<newline>-----\<newline>\<newline>'')) (\<lambda>_.
    seq (logAppend (Text
           ''Active Uniforms:  <index:  name @ location,  type>\<newline>\<newline>'')) (\<lambda>_.
    seq (logUniformLines d [0..<nat (activeUniforms d)]) (\<lambda>_.
    logAppend (Text ''\<newline>'')))))"

fun logAttribLines :: "driver \<Rightarrow> nat list \<Rightarrow> unit action" where
  "logAttribLines d [] = ret ()"
| "logAttribLines d (i # rest) =
    seq (rd (\<lambda>s. gl d (glGetActiveAttrib (m_program s) i))) (\<lambda>_.
    (case activeAttrib d i of (name, arraySize, type) \<Rightarrow>
    seq (rd (\<lambda>s. gl d (glGetAttribLocation (m_program s) name))) (\<lambda>_.
    seq (logAppend (AttribLine i name (attribLocation d name) type)) (\<lambda>_.
    logAttribLines d rest))))"

definition logActiveAttributes :: "driver \<Rightarrow> unit action" where
  "logActiveAttributes d =
    seq (rd (\<lambda>s. gl d (glGetProgramiv (m_program s) GL_ACTIVE_ATTRIBUTES))) (\<lambda>_.
    seq (logAppend (Text ''\<newline>-----\<newline>\<newline>'')) (\<lambda>_.
    seq (logAppend (Text
           ''Active Attributes:  <index: name @ location,  type>\<newline>\<newline>'')) (\<lambda>_.
    seq (logAttribLines d [0..<nat (activeAttributes d)]) (\<lambda>_.
    logAppend (Text ''\<newline>'')))))"

definition linkAndValidateProgram :: "driver \<Rightarrow> bool action" where
  "linkAndValidateProgram d =
    seq (logAppend (Text ''Linking...\<newline>'')) (\<lambda>_.
    seq (setupProgramParameters d) (\<lambda>_.
    seq (rd (\<lambda>s. gl d (glLinkProgram (m_program s)))) (\<lambda>_.
    seq (rd (\<lambda>s. gl d (glGetProgramInfoLog (m_program s)))) (\<lambda>_.
    seq (logAppend (Text (linkInfoLog d @ ''\<newline>\<newline>''))) (\<lambda>_.
    seq (rd (\<lambda>s. gl d (glGetProgramiv (m_program s) GL_LINK_STATUS))) (\<lambda>_.
    seq (assign (\<lambda>s. s\<lparr>m_linked := linkStatus d\<rparr>)) (\<lambda>_.
    seq (rd (\<lambda>s. gl d (glValidateProgram (m_program s)))) (\<lambda>_.
    seq (rd (\<lambda>s. gl d (glGetProgramiv (m_program s) GL_VALIDATE_STATUS))) (\<lambda>_.
    seq (logAppend (Text (''Validation: ''
           @ (if validateStatus d then ''succeeded'' else ''failed'') @ ''\<newline>''))) (\<lambda>_.
    seq (rd (\<lambda>s. gl d (glGetProgramInfoLog (m_program s)))) (\<lambda>_.
    seq (logAppend (Text (validateInfoLog d @ ''\<newline>''))) (\<lambda>_.
    seq (logAppend (Text ''\<newline>'')) (\<lambda>_.
    seq (assign (\<lambda>s. s\<lparr>m_timer := Suc (m_timer s)\<rparr>)) (\<lambda>_.
    seq (rd (\<lambda>s. gl d (glGetAttribLocation (m_program s) ''attrTangent''))) (\<lambda>_.
    seq (assign (\<lambda>s. s\<lparr>m_attribLocations :=
           (m_attribLocations s)\<lparr>tangent := attribLocation d ''attrTangent''\<rparr>\<rparr>)) (\<lambda>_.
    seq (rd (\<lambda>s. gl d (glGetAttribLocation (m_program s) ''attrBitangent''))) (\<lambda>_.
    seq (assign (\<lambda>s. s\<lparr>m_attribLocations :=
           (m_attribLocations s)\<lparr>bitangent := attribLocation d ''attrBitangent''\<rparr>\<rparr>)) (\<lambda>_.
    seq (logActiveUniforms d) (\<lambda>_.
    seq (logActiveAttributes d) (\<lambda>_.
    rd (\<lambda>s. ret (m_linked s))))))))))))))))))))))"

subsection \<open>Reflection and migration\<close>

text \<open>
  \<open>setupInitialUniforms\<close>: one \<open>CUniform\<close> per active uniform, with the name and type
  that \<open>glGetActiveUniform\<close> reports and the location that \<open>glGetUniformLocation\<close>
  reports for that name; then the buffers are replaced.
\<close>

fun readActiveUniforms :: "driver \<Rightarrow> nat list \<Rightarrow> CUniform list \<Rightarrow> CUniform list action" where
  "readActiveUniforms d [] uniforms = ret uniforms"
| "readActiveUniforms d (i # rest) uniforms =
    seq (rd (\<lambda>s. gl d (glGetActiveUniform (m_program s) i))) (\<lambda>_.
    (case activeUniform d i of (name, arraySize, type) \<Rightarrow>
    seq (rd (\<lambda>s. gl d (glGetUniformLocation (m_program s) name))) (\<lambda>_.
    readActiveUniforms d rest
      (uniforms @ [CUniform_ctor name type (uniformLocation d name)]))))"

definition setupInitialUniforms :: "driver \<Rightarrow> unit action" where
  "setupInitialUniforms d =
    seq (rd (\<lambda>s. gl d (glGetProgramiv (m_program s) GL_ACTIVE_UNIFORMS))) (\<lambda>_.
    seq (readActiveUniforms d [0..<nat (activeUniforms d)] []) (\<lambda>uniforms.
    assign (\<lambda>s. s\<lparr>m_oldUniforms := m_activeUniforms s, m_activeUniforms := uniforms\<rparr>)))"

text \<open>
  \<open>setupRememberedUniformState\<close>. The inner loop visits every \<open>m_activeUniforms[j]\<close>
  for one old entry: it skips the entry when the names differ (case sensitive) or the
  types differ, and otherwise replaces it by a copy of the old entry at the new
  entry's location; it then goes on to \<open>j + 1\<close>. The outer loop runs the inner one
  for every \<open>m_oldUniforms[i]\<close> in order.
\<close>

fun rememberOne :: "CUniform \<Rightarrow> CUniform list \<Rightarrow> CUniform list" where
  "rememberOne old [] = []"
| "rememberOne old (neu # rest) =
    (if m_name old \<noteq> m_name neu then neu
     else if m_type old \<noteq> m_type neu then neu
     else CUniform_copy old (m_location neu)) # rememberOne old rest"

fun rememberAll :: "CUniform list \<Rightarrow> CUniform list \<Rightarrow> CUniform list" where
  "rememberAll [] active = active"
| "rememberAll (old # rest) active = rememberAll rest (rememberOne old active)"

definition setupRememberedUniformState :: "CShader \<Rightarrow> CShader" where
  "setupRememberedUniformState s =
    s\<lparr>m_activeUniforms := rememberAll (m_oldUniforms s) (m_activeUniforms s)\<rparr>"

subsection \<open>compileAndLink\<close>

definition compileAndLink2 :: "driver \<Rightarrow> bool action" where
  "compileAndLink2 d =
    seq (deactivateProgram d) (\<lambda>_.
    seq (assign (\<lambda>s. s\<lparr>m_log := []\<rparr>)) (\<lambda>_.
    seq (gl d glCreateProgram) (\<lambda>_.
    seq (assign (\<lambda>s. s\<lparr>m_program := createProgram d\<rparr>)) (\<lambda>_.
    rd (\<lambda>s.
      if m_program s = 0
      then seq (logAppend (Text ''ERROR: Failed on glCreateProgram()\<newline>''))
             (\<lambda>_. ret False)
      else
        seq (compileStages d [0..<MAX_SHADER_TYPES] True) (\<lambda>totalResult.
        seq (if totalResult
             then seq (linkAndValidateProgram d) (\<lambda>result. ret (totalResult \<and> result))
             else ret totalResult) (\<lambda>totalResult.
        seq (if totalResult
             then seq (setupInitialUniforms d) (\<lambda>_. assign setupRememberedUniformState)
             else ret ()) (\<lambda>_.
        ret totalResult))))))))"

definition criticalError :: string where
  "criticalError =
    ''*** CRITICAL ERROR ***\<newline>'' @
    ''\<newline>'' @
    ''  There was an exception thrown by the OpenGL driver!\<newline>'' @
    ''  You should immediately restart the editor!\<newline>'' @
    ''\<newline>'' @
    ''Check your sources for things like unresolved symbols.\<newline>'' @
    ''Missing varying variables can cause trouble too.\<newline>'' @
    ''\<newline>'' @
    ''Example:\<newline>'' @
    ''\<newline>'' @
    ''varying vec3 notDefinedInVertexShader;\<newline>'' @
    ''float foo(); // nowhere implemented\<newline>'' @
    ''\<newline>'' @
    ''vec3 bar()\<newline>'' @
    ''{\<newline>'' @
    ''    return notDefinedInVertexShader * foo();\<newline>'' @
    ''}\<newline>'' @
    ''\<newline>''"

text \<open>
  \<open>compileAndLink\<close>: the \<open>try\<close> block around \<open>compileAndLink2\<close>; \<open>catch( ... )\<close> sets the
  result and replaces the log, and touches nothing else.
\<close>

definition compileAndLink :: "driver \<Rightarrow> bool action" where
  "compileAndLink d s =
    (case compileAndLink2 d s of
       (Returned result, s') \<Rightarrow> (Returned result, s')
     | (Thrown, s') \<Rightarrow> (Returned False, s'\<lparr>m_log := [Text criticalError]\<rparr>)
     | (Aborted, s') \<Rightarrow> (Aborted, s'))"

definition getBuildLog :: "CShader \<Rightarrow> log_piece list" where
  "getBuildLog s = m_log s"

subsection \<open>bindState\<close>

text \<open>
  \<open>updateTimeVariable\<close>; \<open>secs\<close> is the reading \<open>double(m_timer.elapsed()) * 0.001\<close>
  converted to a single.
\<close>

definition updateTimeVariable :: "32 word \<Rightarrow> CUniform \<Rightarrow> CUniform" where
  "updateTimeVariable secs u =
    (if m_type u = GL_FLOAT \<and> isTimeName (m_name u)
     then (case setValueAsFloat 0 secs u of Some u' \<Rightarrow> u' | None \<Rightarrow> u)
     else u)"

definition applyToGL :: "driver \<Rightarrow> CUniform \<Rightarrow> unit action" where
  "applyToGL d u =
    (if m_location u = -1 then ret ()
     else (case uniformCells (m_type u) of
             None \<Rightarrow> ret ()
           | Some n \<Rightarrow> gl d (glUniform (m_location u) (m_type u) (take n (m_data u)))))"

text \<open>The loop of \<open>bindState\<close>; \<open>clock i\<close> is the timer reading in iteration \<open>i\<close>.\<close>

fun bindUniforms :: "driver \<Rightarrow> (nat \<Rightarrow> 32 word) \<Rightarrow> nat list \<Rightarrow> unit action" where
  "bindUniforms d clock [] = ret ()"
| "bindUniforms d clock (i # rest) =
    seq (assign (\<lambda>s. s\<lparr>m_activeUniforms :=
           (m_activeUniforms s)[i := updateTimeVariable (clock i) (m_activeUniforms s ! i)]\<rparr>))
      (\<lambda>_.
    seq (rd (\<lambda>s. applyToGL d (m_activeUniforms s ! i))) (\<lambda>_.
    bindUniforms d clock rest))"

text \<open>
  \<open>bindState( attribs )\<close>: the returned pair is the result and the value left in the
  reference parameter \<open>attribs\<close>.
\<close>

definition bindState ::
  "driver \<Rightarrow> (nat \<Rightarrow> 32 word) \<Rightarrow> (bool \<times> VertexAttribLocations) action" where
  "bindState d clock =
    rd (\<lambda>s.
      if m_program s \<noteq> 0 \<and> m_linked s
      then
        seq (gl d (glUseProgram (m_program s))) (\<lambda>_.
        seq (bindUniforms d clock [0..<length (m_activeUniforms s)]) (\<lambda>_.
        ret (True, m_attribLocations s)))
      else
        seq (gl d (glUseProgram 0)) (\<lambda>_.
        ret (False, VertexAttribLocations_ctor (-1) (-1))))"

subsection \<open>IUniformState\<close>

definition setUniform :: "int \<Rightarrow> CUniform \<Rightarrow> CShader \<Rightarrow> CShader" where
  "setUniform index u s =
    (if \<not> m_linked s \<or> index < 0 \<or> index \<ge> int (length (m_activeUniforms s)) then s
     else
       (let u2 = m_activeUniforms s ! nat index in
        if m_name u2 \<noteq> m_name u \<or> m_type u2 \<noteq> m_type u \<or> m_location u2 \<noteq> m_location u
        then s
        else s\<lparr>m_activeUniforms := (m_activeUniforms s)[nat index := u]\<rparr>))"

text \<open>
  The two readers return their value together with the state they leave behind.
\<close>

definition getActiveUniforms :: "CShader \<Rightarrow> int \<times> CShader" where
  "getActiveUniforms s =
    (if \<not> m_linked s then (0, s) else (int (length (m_activeUniforms s)), s))"

definition getUniform :: "int \<Rightarrow> CShader \<Rightarrow> CUniform \<times> CShader" where
  "getUniform index s =
    (if m_linked s \<and> index \<ge> 0 \<and> index < int (length (m_activeUniforms s))
     then (m_activeUniforms s ! nat index, s)
     else (CUniform_ctor [] 0 (-1), s))"

section \<open>Matching of uniforms\<close>

text \<open>
  The match that \<open>setupRememberedUniformState\<close> tests between an old and a new entry:
  equal names (case sensitive) and equal types.
\<close>

definition sameKey :: "CUniform \<Rightarrow> CUniform \<Rightarrow> bool" where
  "sameKey old neu = (m_name old = m_name neu \<and> m_type old = m_type neu)"

text \<open>A table that holds each pair of a name and a type at most once.\<close>

definition distinctKeys :: "CUniform list \<Rightarrow> bool" where
  "distinctKeys us = distinct (map (\<lambda>u. (m_name u, m_type u)) us)"

section \<open>Example inputs\<close>

text \<open>
  A quiet driver: it never raises an exception, creates every object it is asked for,
  compiles, links and validates everything, and reflects no uniform and no attribute.
\<close>

definition quietDriver :: driver where
  "quietDriver =
    \<lparr>throws = (\<lambda>c. False), createProgram = 1, createShader = (\<lambda>i. i + 2),
     shaderInfoLog = (\<lambda>i. []), compileStatus = (\<lambda>i. True),
     linkInfoLog = [], linkStatus = True, validateStatus = True, validateInfoLog = [],
     attribLocation = (\<lambda>n. -1), activeUniforms = 0, activeUniform = (\<lambda>i. ([], 0, 0)),
     uniformLocation = (\<lambda>n. -1), activeAttributes = 0, activeAttrib = (\<lambda>i. ([], 0, 0))\<rparr>"

text \<open>A linked shader object holding the given old and active uniform tables.\<close>

definition withTable :: "CUniform list \<Rightarrow> CUniform list \<Rightarrow> CShader" where
  "withTable old active =
    CShader_ctor\<lparr>m_activeUniforms := active, m_oldUniforms := old, m_linked := True,
                 m_program := 1\<rparr>"

text \<open>The singles \<open>(1, 2, 3)\<close> and \<open>(3, 2, 1)\<close> as payloads.\<close>

definition vec123 :: "32 word list" where
  "vec123 = [0x3F800000, 0x40000000, 0x40400000, 0, 0, 0, 0, 0, 0, 0, 0, 0, 0, 0, 0, 0]"

definition vec321 :: "32 word list" where
  "vec321 = [0x40400000, 0x40000000, 0x3F800000, 0, 0, 0, 0, 0, 0, 0, 0, 0, 0, 0, 0, 0]"

section \<open>Summary of a fault-free build attempt\<close>

text \<open>
  A stage is attempted when \<open>compileAndAttachShader\<close> takes neither of its two early
  returns: the shader type is available and its source is not empty. An attempted
  stage compiles when the driver creates its shader object and reports a compile
  status other than \<open>GL_FALSE\<close>; a stage that is not attempted counts as success.
  \<open>stageLog\<close> and \<open>stageCalls\<close> are the pieces that one stage appends to the build
  log and the driver calls it makes when no call raises an exception;
  \<open>deactivateCalls\<close> are the calls of \<open>deactivateProgram\<close>. The lemmas
  \<open>compileAndAttachShader_noFault\<close> and \<open>deactivateProgram_noFault\<close> below prove that
  the code does exactly this.
\<close>

definition stageAttempted :: "CShader \<Rightarrow> nat \<Rightarrow> bool" where
  "stageAttempted s i = (isShaderTypeAvailable s i \<and> m_shaderSources s i \<noteq> [])"

definition stageCompiles :: "driver \<Rightarrow> CShader \<Rightarrow> nat \<Rightarrow> bool" where
  "stageCompiles d s i =
    (if stageAttempted s i then createShader d i \<noteq> 0 \<and> compileStatus d i else True)"

definition stageLog :: "driver \<Rightarrow> CShader \<Rightarrow> nat \<Rightarrow> log_piece list" where
  "stageLog d s i =
    (if stageAttempted s i
     then [Text (''Compiling '' @ getShaderTypeName i @ ''\<newline>''),
           (if createShader d i = 0
            then Text (''ERROR: failed on glCreateShader( '' @ getShaderTypeName i @ '' )\<newline>'')
            else Text (shaderInfoLog d i @ ''\<newline>''))]
     else [])"

definition stageCalls :: "driver \<Rightarrow> CShader \<Rightarrow> nat \<Rightarrow> nat \<Rightarrow> gl_call list" where
  "stageCalls d s p i =
    (if stageAttempted s i
     then (case toGlShaderType i of Some kind \<Rightarrow> [glCreateShader kind] | None \<Rightarrow> []) @
          (if createShader d i = 0 then []
           else [glShaderSource (createShader d i) (m_shaderSources s i),
                 glCompileShader (createShader d i),
                 glGetShaderInfoLog (createShader d i),
                 glGetShaderiv (createShader d i) GL_COMPILE_STATUS] @
                (if compileStatus d i then [glAttachShader p (createShader d i)] else []))
     else [])"

definition deactivateCalls :: "CShader \<Rightarrow> gl_call list" where
  "deactivateCalls s =
    [glUseProgram 0] @
    (if m_program s \<noteq> 0 then [glDeleteProgram (m_program s)] else []) @
    map (\<lambda>i. glDeleteShader (m_shaders s i))
      (filter (\<lambda>i. m_shaders s i \<noteq> 0) [0..<MAX_SHADER_TYPES])"

text \<open>The driver calls made between an earlier state and a later one.\<close>

definition callsSince :: "CShader \<Rightarrow> CShader \<Rightarrow> gl_call list" where
  "callsSince s s' = drop (length (glCalls s)) (glCalls s')"

text \<open>
  The state that \<open>compileAndLink2\<close> reaches before its loop over the stages
  (\<open>beforeStages\<close>: the old program deactivated, a new program object requested, the
  log cleared) and after it (\<open>afterStages\<close>) when no call raises an exception; the
  lemma \<open>compileAndLink2_cases\<close> below proves that the code reaches exactly them.
\<close>

definition beforeStages :: "driver \<Rightarrow> CShader \<Rightarrow> CShader" where
  "beforeStages d s =
    s\<lparr>m_linked := False,
      m_attribLocations := VertexAttribLocations_ctor (-1) (-1),
      m_shaders := (\<lambda>k. if k < MAX_SHADER_TYPES then 0 else m_shaders s k),
      m_log := [],
      glCalls := glCalls s @ deactivateCalls s @ [glCreateProgram],
      m_program := createProgram d\<rparr>"

definition afterStages :: "driver \<Rightarrow> CShader \<Rightarrow> CShader" where
  "afterStages d s =
    (beforeStages d s)
      \<lparr>m_log := concat (map (stageLog d s) [0..<MAX_SHADER_TYPES]),
       m_shaders := (\<lambda>k. if k < MAX_SHADER_TYPES
                          then (if stageAttempted s k then createShader d k else 0)
                          else m_shaders s k),
       glCalls := glCalls s @ deactivateCalls s @ [glCreateProgram] @
                  concat (map (stageCalls d s (createProgram d)) [0..<MAX_SHADER_TYPES])\<rparr>"

text \<open>
  The driver calls with which \<open>setupInitialUniforms\<close> and \<open>logActiveUniforms\<close> query
  the active uniforms of program \<open>p\<close>, and \<open>logActiveAttributes\<close> its active
  attributes.
\<close>

definition uniformQueries :: "driver \<Rightarrow> nat \<Rightarrow> gl_call list" where
  "uniformQueries d p =
    concat (map (\<lambda>i. [glGetActiveUniform p i,
                       glGetUniformLocation p (fst (activeUniform d i))])
                [0..<nat (activeUniforms d)])"

definition attribQueries :: "driver \<Rightarrow> nat \<Rightarrow> gl_call list" where
  "attribQueries d p =
    concat (map (\<lambda>i. [glGetActiveAttrib p i,
                       glGetAttribLocation p (fst (activeAttrib d i))])
                [0..<nat (activeAttributes d)])"

text \<open>
  The pieces that \<open>linkAndValidateProgram\<close> appends to the build log and the driver
  calls it makes when no call raises an exception (lemma
  \<open>linkAndValidateProgram_exact\<close> below).
\<close>

definition linkLog :: "driver \<Rightarrow> log_piece list" where
  "linkLog d =
    [Text ''Linking...\<newline>'',
     Text (linkInfoLog d @ ''\<newline>\<newline>''),
     Text (''Validation: '' @ (if validateStatus d then ''succeeded'' else ''failed'')
           @ ''\<newline>''),
     Text (validateInfoLog d @ ''\<newline>''),
     Text ''\<newline>'',
     Text ''\<newline>-----\<newline>\<newline>'',
     Text ''Active Uniforms:  <index:  name @ location,  type>\<newline>\<newline>''] @
    map (\<lambda>i. case activeUniform d i of (name, arraySize, type) \<Rightarrow>
                  UniformLine i name (uniformLocation d name) type arraySize)
        [0..<nat (activeUniforms d)] @
    [Text ''\<newline>'',
     Text ''\<newline>-----\<newline>\<newline>'',
     Text ''Active Attributes:  <index: name @ location,  type>\<newline>\<newline>''] @
    map (\<lambda>i. case activeAttrib d i of (name, arraySize, type) \<Rightarrow>
                  AttribLine i name (attribLocation d name) type)
        [0..<nat (activeAttributes d)] @
    [Text ''\<newline>'']"

definition linkCalls :: "driver \<Rightarrow> CShader \<Rightarrow> gl_call list" where
  "linkCalls d s =
    (if m_geometryShaderAvailable s
     then [glGetIntegerv GL_MAX_GEOMETRY_OUTPUT_VERTICES_EXT,
           glProgramParameteriEXT (m_program s) GL_GEOMETRY_VERTICES_OUT_EXT (m_num_output s),
           glProgramParameteriEXT (m_program s) GL_GEOMETRY_INPUT_TYPE_EXT
             (m_geometryInputType s),
           glProgramParameteriEXT (m_program s) GL_GEOMETRY_OUTPUT_TYPE_EXT
             (m_geometryOutputType s)]
     else []) @
    [glLinkProgram (m_program s),
     glGetProgramInfoLog (m_program s),
     glGetProgramiv (m_program s) GL_LINK_STATUS,
     glValidateProgram (m_program s),
     glGetProgramiv (m_program s) GL_VALIDATE_STATUS,
     glGetProgramInfoLog (m_program s),
     glGetAttribLocation (m_program s) ''attrTangent'',
     glGetAttribLocation (m_program s) ''attrBitangent'',
     glGetProgramiv (m_program s) GL_ACTIVE_UNIFORMS] @
    uniformQueries d (m_program s) @
    [glGetProgramiv (m_program s) GL_ACTIVE_ATTRIBUTES] @
    attribQueries d (m_program s)"

text \<open>
  The table that \<open>setupInitialUniforms\<close> reflects from the driver: for each active
  uniform a freshly constructed entry with the reported name and type at the reported
  location (lemma \<open>setupInitialUniforms_exact\<close> below).
\<close>

definition reflectedUniforms :: "driver \<Rightarrow> CUniform list" where
  "reflectedUniforms d =
    map (\<lambda>i. case activeUniform d i of (name, arraySize, type) \<Rightarrow>
                 CUniform_ctor name type (uniformLocation d name))
        [0..<nat (activeUniforms d)]"

text \<open>
  The driver call that \<open>applyToGL\<close> makes for a uniform when no call raises an
  exception: none for location \<open>-1\<close> or a type it does not know, else one
  \<open>glUniform\<close> call carrying the cells of the payload that the type uses (lemma
  \<open>applyToGL_exact\<close> below).
\<close>

definition uniformPush :: "CUniform \<Rightarrow> gl_call list" where
  "uniformPush u =
    (if m_location u = -1 then []
     else (case uniformCells (m_type u) of
             None \<Rightarrow> []
           | Some n \<Rightarrow> [glUniform (m_location u) (m_type u) (take n (m_data u))]))"

section \<open>Example build attempts\<close>

text \<open>A fresh shader object whose vertex stage has a source.\<close>

definition vertexOnly :: CShader where
  "vertexOnly = setShaderSource 0 ''void main(){}'' CShader_ctor"

text \<open>
  A driver like the quiet one, except that \<open>glValidateProgram\<close> on program 1 raises an
  exception.
\<close>

definition faultAtValidate :: driver where
  "faultAtValidate = quietDriver\<lparr>throws := (\<lambda>c. c = glValidateProgram 1)\<rparr>"

text \<open>
  A shader object with geometry shaders available and a source for each of the three
  stages, the vertex source with a syntax error; and a driver that rejects the vertex
  stage with a diagnostic and accepts the other two.
\<close>

definition threeStages :: CShader where
  "threeStages =
    setShaderSource 2 ''void main(){}''
      (setShaderSource 1 ''void main(){}''
        (setShaderSource 0 ''void main({}''
          (CShader_ctor\<lparr>m_geometryShaderAvailable := True\<rparr>)))"

definition badVertexDriver :: driver where
  "badVertexDriver =
    quietDriver\<lparr>compileStatus := (\<lambda>i. i \<noteq> 0),
                 shaderInfoLog := (\<lambda>i. if i = 0 then ''0(1) : error C0000: syntax error''
                                       else [])\<rparr>"

section \<open>Example relink\<close>

text \<open>
  A linked shader object with a fragment source whose table holds \<open>foo\<close> (FloatVec3)
  at location 3 with the payload \<open>(1, 2, 3)\<close>; and a driver like the quiet one that
  reflects two active uniforms, \<open>foo\<close> (FloatVec3) at location 7 and \<open>bar\<close> (Float)
  at location 2.
\<close>

definition relinkDriver :: driver where
  "relinkDriver =
    quietDriver\<lparr>activeUniforms := 2,
                 activeUniform := (\<lambda>i. if i = 0 then (''foo'', 1, GL_FLOAT_VEC3)
                                        else (''bar'', 1, GL_FLOAT)),
                 uniformLocation := (\<lambda>n. if n = ''foo'' then 7 else 2)\<rparr>"

definition fooProgram :: CShader where
  "fooProgram =
    setShaderSource 2 ''uniform vec3 foo; uniform float bar; void main(){}''
      (withTable [] [(CUniform_ctor ''foo'' GL_FLOAT_VEC3 3)\<lparr>m_data := vec123\<rparr>])"

section \<open>Facts about the constructor\<close>

lemmas gl_types =
  GL_INT_def GL_FLOAT_def GL_FLOAT_VEC2_def GL_FLOAT_VEC3_def GL_FLOAT_VEC4_def
  GL_INT_VEC2_def GL_INT_VEC3_def GL_INT_VEC4_def
  GL_BOOL_def GL_BOOL_VEC2_def GL_BOOL_VEC3_def GL_BOOL_VEC4_def
  GL_FLOAT_MAT2_def GL_FLOAT_MAT3_def GL_FLOAT_MAT4_def
  GL_SAMPLER_1D_def GL_SAMPLER_2D_def GL_SAMPLER_3D_def GL_SAMPLER_CUBE_def
  GL_SAMPLER_1D_SHADOW_def GL_SAMPLER_2D_SHADOW_def

lemmas float_bits = float_0_1_def float_0_2_def float_0_3_def float_0_4_def float_1_0_def

lemma ctor_fields:
  "m_name (CUniform_ctor n t l) = n" "m_type (CUniform_ctor n t l) = t"
  "m_location (CUniform_ctor n t l) = l"
  by (simp_all add: CUniform_ctor_def Let_def)

lemma ctor_data_len: "length (m_data (CUniform_ctor n t l)) = 16"
  by (simp add: CUniform_ctor_def Let_def)

lemma ctor_data_other:
  "t \<noteq> GL_FLOAT_MAT2 \<Longrightarrow> t \<noteq> GL_FLOAT_MAT3 \<Longrightarrow> t \<noteq> GL_FLOAT_MAT4 \<Longrightarrow>
   m_data (CUniform_ctor n t l) =
     [float_0_1, float_0_2, float_0_3, float_0_4, 0, 0, 0, 0, 0, 0, 0, 0, 0, 0, 0, 0]"
  by (simp add: CUniform_ctor_def Let_def GL_FLOAT_VEC3_def numeral_eq_Suc)

lemma ctor_data_mat2:
  "m_data (CUniform_ctor n GL_FLOAT_MAT2 l) =
     [float_1_0, float_0_2, float_0_3, float_1_0, 0, 0, 0, 0, 0, 0, 0, 0, 0, 0, 0, 0]"
  by (simp add: CUniform_ctor_def Let_def gl_types numeral_eq_Suc)

lemma ctor_data_mat3:
  "m_data (CUniform_ctor n GL_FLOAT_MAT3 l) =
     [float_1_0, float_0_2, float_0_3, float_0_4, float_1_0, 0, 0, 0, float_1_0, 0, 0, 0, 0, 0, 0, 0]"
  by (simp add: CUniform_ctor_def Let_def gl_types numeral_eq_Suc)

lemma ctor_data_mat4:
  "m_data (CUniform_ctor n GL_FLOAT_MAT4 l) =
     [float_1_0, float_0_2, float_0_3, float_0_4, 0, float_1_0, 0, 0, 0, 0, float_1_0, 0, 0, 0, 0, float_1_0]"
  by (simp add: CUniform_ctor_def Let_def gl_types numeral_eq_Suc)

text \<open>
  Claim C1 says that a freshly constructed uniform holds the identity matrix for the
  matrix types and an all-zero payload for the Bool, Int and sampler types. The test
  for the float vectors is always true, so the constructor first writes the float
  vector default \<open>(0.1, 0.2, 0.3, 0.4)\<close> into every payload: an \<open>int\<close> uniform reads
  back the bit pattern of \<open>0.1f\<close>, and the 2x2 matrix keeps \<open>0.2\<close> and \<open>0.3\<close> off its
  diagonal. This theorem evaluates the constructor at both inputs.
\<close>

theorem ctor_payload_not_type_default:
  "m_data (CUniform_ctor ''count'' GL_INT 2) =
     [float_0_1, float_0_2, float_0_3, float_0_4, 0, 0, 0, 0, 0, 0, 0, 0, 0, 0, 0, 0]
   \<and> getValueAsInt 0 (CUniform_ctor ''count'' GL_INT 2) = Some 1036831949
   \<and> m_data (CUniform_ctor ''rot'' GL_FLOAT_MAT2 0) =
     [float_1_0, float_0_2, float_0_3, float_1_0, 0, 0, 0, 0, 0, 0, 0, 0, 0, 0, 0, 0]
   \<and> float_0_2 \<noteq> 0 \<and> float_0_3 \<noteq> 0"
proof -
  have i: "m_data (CUniform_ctor ''count'' GL_INT 2) =
     [float_0_1, float_0_2, float_0_3, float_0_4, 0, 0, 0, 0, 0, 0, 0, 0, 0, 0, 0, 0]"
    by (rule ctor_data_other) (simp_all add: gl_types)
  have g: "getValueAsInt 0 (CUniform_ctor ''count'' GL_INT 2) = Some 1036831949"
    by (simp add: getValueAsInt_def i float_bits)
  have f: "float_0_2 \<noteq> 0" "float_0_3 \<noteq> 0" by (simp_all add: float_bits)
  show ?thesis using i g f ctor_data_mat2 [of "''rot''" 0] by simp
qed

theorem ctor_payload_not_type_default_witness:
  "getValueAsInt 0 (CUniform_ctor ''count'' GL_INT 2) \<noteq> Some 0
   \<and> m_data (CUniform_ctor ''rot'' GL_FLOAT_MAT2 0) ! 1 \<noteq> 0"
  using ctor_payload_not_type_default by simp

section \<open>Running the actions\<close>

lemma seq_ret: "seq (ret x) f s = f x s" by (simp add: seq_def ret_def)
lemma seq_assign: "seq (assign g) f s = f () (g s)" by (simp add: seq_def assign_def)
lemma seq_rd: "seq (rd g) f s = seq (g s) f s" by (simp add: seq_def rd_def)
lemma seq_logAppend: "seq (logAppend p) f s = f () (s\<lparr>m_log := m_log s @ [p]\<rparr>)"
  by (simp add: logAppend_def seq_assign)
lemma seq_gl: "seq (gl d c) f s =
   (if throws d c then (Thrown, s\<lparr>glCalls := glCalls s @ [c]\<rparr>) else f () (s\<lparr>glCalls := glCalls s @ [c]\<rparr>))"
  by (simp add: seq_def gl_def)
lemma seq_seq: "seq (seq m g) f s = seq m (\<lambda>x. seq (g x) f) s"
  by (simp add: seq_def split: prod.splits outcome.splits)
lemma seq_if: "seq (if b then m1 else m2) f s = (if b then seq m1 f s else seq m2 f s)" by simp
lemma seq_abort: "seq (\<lambda>s. (Aborted, s)) f s = (Aborted, s)" by (simp add: seq_def)
lemma seq_case_option: "seq (case x of None \<Rightarrow> m1 | Some y \<Rightarrow> m2 y) f s = (case x of None \<Rightarrow> seq m1 f s | Some y \<Rightarrow> seq (m2 y) f s)"
  by (simp split: option.splits)
lemma seq_case_prod: "seq (case x of (a, b) \<Rightarrow> m a b) f s = (case x of (a, b) \<Rightarrow> seq (m a b) f s)"
  by (simp split: prod.splits)
lemma stages3: "[0..<MAX_SHADER_TYPES] = [0, 1, 2]" by (simp add: MAX_SHADER_TYPES_def upt_rec)
lemma seq_eq: "m s = (Returned x, s') \<Longrightarrow> seq m f s = f x s'"
  by (simp add: seq_def)

lemmas exec = seq_ret seq_assign seq_rd seq_logAppend seq_gl seq_seq seq_if seq_abort seq_case_option seq_case_prod
  ret_def rd_def assign_def gl_def logAppend_def

section \<open>A build attempt with a driver that raises no exception\<close>

lemma deleteShaderObjects_noFault:
  assumes "noFault d" "distinct is"
  shows "deleteShaderObjects d is s =
     (Returned (), s\<lparr>m_shaders := (\<lambda>k. if k \<in> set is then 0 else m_shaders s k),
                     glCalls := glCalls s @ map (\<lambda>i. glDeleteShader (m_shaders s i))
                                               (filter (\<lambda>i. m_shaders s i \<noteq> 0) is)\<rparr>)"
  using assms
proof (induction "is" arbitrary: s)
  case Nil
  then show ?case by (simp add: ret_def)
next
  case (Cons i rest)
  have nf: "\<And>c. \<not> throws d c" using Cons.prems by (simp add: noFault_def)
  have dist: "distinct rest" "i \<notin> set rest" using Cons.prems by simp_all
  have f3: "map (\<lambda>ia. glDeleteShader (if ia = i then 0 else m_shaders s ia))
              (filter (\<lambda>ia. ia \<noteq> i \<and> (ia \<noteq> i \<longrightarrow> 0 < m_shaders s ia)) rest) =
            map (\<lambda>i. glDeleteShader (m_shaders s i)) (filter (\<lambda>i. 0 < m_shaders s i) rest)"
    using dist(2) by (induction rest) auto
  show ?case
    using dist
    apply (simp add: exec nf Cons.IH[OF Cons.prems(1) dist(1)])
    apply (intro conjI impI CShader.equality)
    apply (auto simp: f3 fun_eq_iff)
    done
qed

lemma deactivateProgram_noFault:
  assumes "noFault d"
  shows "deactivateProgram d s =
     (Returned (), s\<lparr>m_linked := False,
                     m_attribLocations := VertexAttribLocations_ctor (-1) (-1),
                     m_program := 0,
                     m_shaders := (\<lambda>k. if k < MAX_SHADER_TYPES then 0 else m_shaders s k),
                     glCalls := glCalls s @ deactivateCalls s\<rparr>)"
proof -
  have nf: "\<And>c. \<not> throws d c" using assms by (simp add: noFault_def)
  have d3: "distinct [0..<MAX_SHADER_TYPES]" by simp
  show ?thesis
    apply (simp add: deactivateProgram_def exec nf deleteShaderObjects_noFault[OF assms d3] deactivateCalls_def)
    apply (intro conjI impI CShader.equality)
    apply (auto simp: fun_eq_iff)
    done
qed

lemma compileAndAttachShader_noFault:
  assumes "noFault d" "i < MAX_SHADER_TYPES" "m_shaders s i = 0"
  shows "compileAndAttachShader d i s =
     (Returned (stageCompiles d s i),
      s\<lparr>m_log := m_log s @ stageLog d s i,
        m_shaders := (if stageAttempted s i then (m_shaders s)(i := createShader d i) else m_shaders s),
        glCalls := glCalls s @ stageCalls d s (m_program s) i\<rparr>)"
proof -
  have nf: "\<And>c. \<not> throws d c" using assms by (simp add: noFault_def)
  have k: "toGlShaderType i \<noteq> None" using assms(2)
    by (auto simp: toGlShaderType_def MAX_SHADER_TYPES_def TYPE_VERTEX_def TYPE_GEOMETRY_def TYPE_FRAGMENT_def)
  then obtain kind where kind: "toGlShaderType i = Some kind" by auto
  show ?thesis
    using assms(3)
    by (simp add: compileAndAttachShader_def exec nf kind stageCompiles_def stageLog_def stageCalls_def stageAttempted_def)
qed


lemma stageAttempted_frame:
  "m_shaderSources s' = m_shaderSources s \<Longrightarrow>
   m_geometryShaderAvailable s' = m_geometryShaderAvailable s \<Longrightarrow>
   stageAttempted s' = stageAttempted s"
  by (simp add: stageAttempted_def isShaderTypeAvailable_def fun_eq_iff)

lemma stage_frame:
  assumes "m_shaderSources s' = m_shaderSources s"
    "m_geometryShaderAvailable s' = m_geometryShaderAvailable s"
  shows "stageCompiles d s' = stageCompiles d s" "stageLog d s' = stageLog d s"
    "stageCalls d s' = stageCalls d s"
  using stageAttempted_frame[OF assms] assms(1)
  by (simp_all add: stageCompiles_def stageLog_def stageCalls_def fun_eq_iff)


lemma compileStages_noFault:
  assumes "noFault d" "distinct is" "\<forall>i\<in>set is. i < MAX_SHADER_TYPES \<and> m_shaders s i = 0"
  shows "compileStages d is totalResult s =
     (Returned (totalResult \<and> list_all (stageCompiles d s) is),
      s\<lparr>m_log := m_log s @ concat (map (stageLog d s) is),
        m_shaders := (\<lambda>k. if k \<in> set is \<and> stageAttempted s k then createShader d k
                          else m_shaders s k),
        glCalls := glCalls s @ concat (map (stageCalls d s (m_program s)) is)\<rparr>)"
  using assms(2,3)
proof (induction "is" arbitrary: s totalResult)
  case Nil
  then show ?case by (simp add: ret_def)
next
  case (Cons i rest)
  let ?s1 = "s\<lparr>m_log := m_log s @ stageLog d s i,
        m_shaders := (if stageAttempted s i then (m_shaders s)(i := createShader d i) else m_shaders s),
        glCalls := glCalls s @ stageCalls d s (m_program s) i\<rparr>"
  have one: "compileAndAttachShader d i s = (Returned (stageCompiles d s i), ?s1)"
    using Cons.prems by (intro compileAndAttachShader_noFault[OF assms(1)]) simp_all
  have fr: "stageAttempted ?s1 = stageAttempted s" "stageCompiles d ?s1 = stageCompiles d s"
     "stageLog d ?s1 = stageLog d s" "stageCalls d ?s1 = stageCalls d s"
    by (rule stageAttempted_frame stage_frame; simp)+
  have pre: "distinct rest" "\<forall>j\<in>set rest. j < MAX_SHADER_TYPES \<and> m_shaders ?s1 j = 0"
    using Cons.prems by auto
  have step: "seq (compileAndAttachShader d i) f s = f (stageCompiles d s i) ?s1" for f
    by (simp add: seq_def one)
  show ?case
    apply (simp add: step Cons.IH[OF pre] fr)
    apply (intro conjI impI CShader.equality)
    apply (auto simp: fun_eq_iff)
    done
qed

lemma seq_fst: "fst (m s) = Returned x \<Longrightarrow> seq m f s = f x (snd (m s))"
  by (cases "m s") (simp add: seq_def)

lemma logUniformLines_noFault:
  assumes "noFault d"
  shows "logUniformLines d is s =
     (Returned (),
      s\<lparr>m_log := m_log s @ map (\<lambda>i. case activeUniform d i of (name, arraySize, type) \<Rightarrow>
                                     UniformLine i name (uniformLocation d name) type arraySize) is,
        glCalls := glCalls s @ concat (map (\<lambda>i. [glGetActiveUniform (m_program s) i,
                     glGetUniformLocation (m_program s) (fst (activeUniform d i))]) is)\<rparr>)"
proof (induction "is" arbitrary: s)
  case Nil
  show ?case by (simp add: ret_def)
next
  case (Cons i rest)
  have nf: "\<And>c. \<not> throws d c" using assms by (simp add: noFault_def)
  show ?case
    by (cases "activeUniform d i") (simp add: exec nf Cons.IH)
qed

lemma logAttribLines_noFault:
  assumes "noFault d"
  shows "logAttribLines d is s =
     (Returned (),
      s\<lparr>m_log := m_log s @ map (\<lambda>i. case activeAttrib d i of (name, arraySize, type) \<Rightarrow>
                                     AttribLine i name (attribLocation d name) type) is,
        glCalls := glCalls s @ concat (map (\<lambda>i. [glGetActiveAttrib (m_program s) i,
                     glGetAttribLocation (m_program s) (fst (activeAttrib d i))]) is)\<rparr>)"
proof (induction "is" arbitrary: s)
  case Nil
  show ?case by (simp add: ret_def)
next
  case (Cons i rest)
  have nf: "\<And>c. \<not> throws d c" using assms by (simp add: noFault_def)
  show ?case
    by (cases "activeAttrib d i") (simp add: exec nf Cons.IH)
qed

lemma readActiveUniforms_noFault:
  assumes "noFault d"
  shows "readActiveUniforms d is uniforms s =
     (Returned (uniforms @ map (\<lambda>i. case activeUniform d i of (name, arraySize, type) \<Rightarrow>
                                  CUniform_ctor name type (uniformLocation d name)) is),
      s\<lparr>glCalls := glCalls s @ concat (map (\<lambda>i. [glGetActiveUniform (m_program s) i,
                     glGetUniformLocation (m_program s) (fst (activeUniform d i))]) is)\<rparr>)"
proof (induction "is" arbitrary: s uniforms)
  case Nil
  show ?case by (simp add: ret_def)
next
  case (Cons i rest)
  have nf: "\<And>c. \<not> throws d c" using assms by (simp add: noFault_def)
  show ?case
    by (cases "activeUniform d i") (simp add: exec nf Cons.IH)
qed

lemma linkAndValidateProgram_noFault:
  assumes "noFault d"
  shows "fst (linkAndValidateProgram d s) = Returned (linkStatus d)"
    and "m_linked (snd (linkAndValidateProgram d s)) = linkStatus d"
    and "m_program (snd (linkAndValidateProgram d s)) = m_program s"
    and "m_activeUniforms (snd (linkAndValidateProgram d s)) = m_activeUniforms s"
    and "m_oldUniforms (snd (linkAndValidateProgram d s)) = m_oldUniforms s"
    and "m_attribLocations (snd (linkAndValidateProgram d s)) =
           \<lparr>tangent = attribLocation d ''attrTangent'',
            bitangent = attribLocation d ''attrBitangent''\<rparr>"
proof -
  have nf: "\<And>c. \<not> throws d c" using assms by (simp add: noFault_def)
  note ex = linkAndValidateProgram_def setupProgramParameters_def logActiveUniforms_def
    logActiveAttributes_def exec nf logUniformLines_noFault[OF assms]
    logAttribLines_noFault[OF assms] seq_eq[where m = "logUniformLines d xs" for xs]
    seq_eq[where m = "logAttribLines d xs" for xs]
  show "fst (linkAndValidateProgram d s) = Returned (linkStatus d)" by (simp add: ex)
  show "m_linked (snd (linkAndValidateProgram d s)) = linkStatus d" by (simp add: ex)
  show "m_program (snd (linkAndValidateProgram d s)) = m_program s" by (simp add: ex)
  show "m_activeUniforms (snd (linkAndValidateProgram d s)) = m_activeUniforms s" by (simp add: ex)
  show "m_oldUniforms (snd (linkAndValidateProgram d s)) = m_oldUniforms s" by (simp add: ex)
  show "m_attribLocations (snd (linkAndValidateProgram d s)) =
           \<lparr>tangent = attribLocation d ''attrTangent'',
            bitangent = attribLocation d ''attrBitangent''\<rparr>"
    by (cases "m_attribLocations s") (simp add: ex)
qed

lemma setupInitialUniforms_noFault:
  assumes "noFault d"
  shows "fst (setupInitialUniforms d s) = Returned ()"
    and "m_linked (snd (setupInitialUniforms d s)) = m_linked s"
    and "m_program (snd (setupInitialUniforms d s)) = m_program s"
    and "m_oldUniforms (snd (setupInitialUniforms d s)) = m_activeUniforms s"
    and "m_activeUniforms (snd (setupInitialUniforms d s)) =
           map (\<lambda>i. case activeUniform d i of (name, arraySize, type) \<Rightarrow>
                        CUniform_ctor name type (uniformLocation d name))
               [0..<nat (activeUniforms d)]"
proof -
  have nf: "\<And>c. \<not> throws d c" using assms by (simp add: noFault_def)
  note ex = setupInitialUniforms_def exec nf readActiveUniforms_noFault[OF assms]
    seq_eq[where m = "readActiveUniforms d xs ys" for xs ys]
  show "fst (setupInitialUniforms d s) = Returned ()" by (simp add: ex)
  show "m_linked (snd (setupInitialUniforms d s)) = m_linked s" by (simp add: ex)
  show "m_program (snd (setupInitialUniforms d s)) = m_program s" by (simp add: ex)
  show "m_oldUniforms (snd (setupInitialUniforms d s)) = m_activeUniforms s" by (simp add: ex)
  show "m_activeUniforms (snd (setupInitialUniforms d s)) =
           map (\<lambda>i. case activeUniform d i of (name, arraySize, type) \<Rightarrow>
                        CUniform_ctor name type (uniformLocation d name))
               [0..<nat (activeUniforms d)]" by (simp add: ex)
qed

lemma compileAndLink2_prefix:
  assumes "noFault d"
  shows "compileAndLink2 d s =
    (let s2 = s\<lparr>m_linked := False,
                 m_attribLocations := VertexAttribLocations_ctor (-1) (-1),
                 m_shaders := (\<lambda>k. if k < MAX_SHADER_TYPES then 0 else m_shaders s k),
                 m_log := [],
                 glCalls := glCalls s @ deactivateCalls s @ [glCreateProgram],
                 m_program := createProgram d\<rparr>
     in if createProgram d = 0
        then (Returned False,
              s2\<lparr>m_log := [Text ''ERROR: Failed on glCreateProgram()\<newline>'']\<rparr>)
        else
          seq (compileStages d [0..<MAX_SHADER_TYPES] True) (\<lambda>totalResult.
          seq (if totalResult
               then seq (linkAndValidateProgram d) (\<lambda>result. ret (totalResult \<and> result))
               else ret totalResult) (\<lambda>totalResult.
          seq (if totalResult
               then seq (setupInitialUniforms d) (\<lambda>_. assign setupRememberedUniformState)
               else ret ()) (\<lambda>_.
          ret totalResult))) s2)"
proof -
  have nf: "\<And>c. \<not> throws d c" using assms by (simp add: noFault_def)
  show ?thesis
    by (simp add: compileAndLink2_def seq_eq[OF deactivateProgram_noFault[OF assms]]
          seq_assign seq_gl nf seq_rd seq_if seq_logAppend seq_ret ret_def rd_def Let_def)
qed

lemma compileAndLink2_noFault:
  assumes "noFault d"
  shows "fst (compileAndLink2 d s) =
           Returned (createProgram d \<noteq> 0
                     \<and> list_all (stageCompiles d s) [0..<MAX_SHADER_TYPES] \<and> linkStatus d)"
    and "m_linked (snd (compileAndLink2 d s)) =
           (createProgram d \<noteq> 0
            \<and> list_all (stageCompiles d s) [0..<MAX_SHADER_TYPES] \<and> linkStatus d)"
    and "m_program (snd (compileAndLink2 d s)) = createProgram d"
    and "createProgram d \<noteq> 0 \<Longrightarrow> \<not> list_all (stageCompiles d s) [0..<MAX_SHADER_TYPES] \<Longrightarrow>
         m_log (snd (compileAndLink2 d s)) = concat (map (stageLog d s) [0..<MAX_SHADER_TYPES])"
    and "createProgram d \<noteq> 0 \<Longrightarrow> \<not> list_all (stageCompiles d s) [0..<MAX_SHADER_TYPES] \<Longrightarrow>
         glCalls (snd (compileAndLink2 d s)) =
           glCalls s @ deactivateCalls s @ [glCreateProgram] @
           concat (map (stageCalls d s (createProgram d)) [0..<MAX_SHADER_TYPES])"
proof -
  define s2 where "s2 = s\<lparr>m_linked := False,
                 m_attribLocations := VertexAttribLocations_ctor (-1) (-1),
                 m_shaders := (\<lambda>k. if k < MAX_SHADER_TYPES then 0 else m_shaders s k),
                 m_log := [],
                 glCalls := glCalls s @ deactivateCalls s @ [glCreateProgram],
                 m_program := createProgram d\<rparr>"
  define s3 where "s3 = s2\<lparr>m_log := m_log s2 @ concat (map (stageLog d s2) [0..<MAX_SHADER_TYPES]),
        m_shaders := (\<lambda>k. if k \<in> set [0..<MAX_SHADER_TYPES] \<and> stageAttempted s2 k
                          then createShader d k else m_shaders s2 k),
        glCalls := glCalls s2 @
           concat (map (stageCalls d s2 (m_program s2)) [0..<MAX_SHADER_TYPES])\<rparr>"
  define ok where "ok = list_all (stageCompiles d s) [0..<MAX_SHADER_TYPES]"
  have fr: "stageCompiles d s2 = stageCompiles d s" "stageLog d s2 = stageLog d s"
    "stageCalls d s2 = stageCalls d s"
    by (rule stage_frame; simp add: s2_def)+
  have "compileStages d [0..<MAX_SHADER_TYPES] True s2 =
          (Returned (True \<and> list_all (stageCompiles d s2) [0..<MAX_SHADER_TYPES]), s3)"
    unfolding s3_def
    by (rule compileStages_noFault[OF assms]) (simp_all add: s2_def)
  then have cs: "compileStages d [0..<MAX_SHADER_TYPES] True s2 = (Returned ok, s3)"
    by (simp add: fr ok_def)
  have step: "seq (compileStages d [0..<MAX_SHADER_TYPES] True) f s2 = f ok s3" for f
    by (simp add: seq_def cs)
  have s3f: "m_linked s3 = False" "m_program s3 = createProgram d"
    "m_log s3 = concat (map (stageLog d s) [0..<MAX_SHADER_TYPES])"
    "glCalls s3 = glCalls s @ deactivateCalls s @ [glCreateProgram] @
           concat (map (stageCalls d s (createProgram d)) [0..<MAX_SHADER_TYPES])"
    unfolding s3_def fr by (simp_all add: s2_def)
  have whole: "compileAndLink2 d s =
     (if createProgram d = 0
      then (Returned False,
              s2\<lparr>m_log := [Text ''ERROR: Failed on glCreateProgram()\<newline>'']\<rparr>)
      else if \<not> ok then (Returned False, s3)
      else if \<not> linkStatus d then (Returned False, snd (linkAndValidateProgram d s3))
      else (Returned True,
            setupRememberedUniformState
              (snd (setupInitialUniforms d (snd (linkAndValidateProgram d s3))))))"
    by (simp add: compileAndLink2_prefix[OF assms] Let_def s2_def[symmetric] step
          seq_if seq_ret seq_seq seq_assign ret_def
          seq_fst[OF linkAndValidateProgram_noFault(1)[OF assms]]
          seq_fst[OF setupInitialUniforms_noFault(1)[OF assms]])
  show "fst (compileAndLink2 d s) =
           Returned (createProgram d \<noteq> 0
                     \<and> list_all (stageCompiles d s) [0..<MAX_SHADER_TYPES] \<and> linkStatus d)"
    by (simp add: whole ok_def[symmetric])
  show "m_linked (snd (compileAndLink2 d s)) =
           (createProgram d \<noteq> 0
            \<and> list_all (stageCompiles d s) [0..<MAX_SHADER_TYPES] \<and> linkStatus d)"
    by (simp add: whole ok_def[symmetric] s3f s2_def setupRememberedUniformState_def
          linkAndValidateProgram_noFault[OF assms] setupInitialUniforms_noFault[OF assms])
  show "m_program (snd (compileAndLink2 d s)) = createProgram d"
    by (simp add: whole ok_def[symmetric] s3f s2_def setupRememberedUniformState_def
          linkAndValidateProgram_noFault[OF assms] setupInitialUniforms_noFault[OF assms])
  show "m_log (snd (compileAndLink2 d s)) = concat (map (stageLog d s) [0..<MAX_SHADER_TYPES])"
    if "createProgram d \<noteq> 0" "\<not> list_all (stageCompiles d s) [0..<MAX_SHADER_TYPES]"
    using that by (simp add: whole ok_def[symmetric] s3f)
  show "glCalls (snd (compileAndLink2 d s)) =
           glCalls s @ deactivateCalls s @ [glCreateProgram] @
           concat (map (stageCalls d s (createProgram d)) [0..<MAX_SHADER_TYPES])"
    if "createProgram d \<noteq> 0" "\<not> list_all (stageCompiles d s) [0..<MAX_SHADER_TYPES]"
    using that by (simp add: whole ok_def[symmetric] s3f)
qed

lemma compileAndLink_noFault:
  assumes "noFault d"
  shows "compileAndLink d s = compileAndLink2 d s"
  using compileAndLink2_noFault(1)[OF assms, of s]
  by (cases "compileAndLink2 d s") (simp add: compileAndLink_def)

section \<open>The state after a fault-free build attempt\<close>

lemma linkAndValidateProgram_exact:
  assumes "noFault d"
  shows "linkAndValidateProgram d s =
    (Returned (linkStatus d),
     s\<lparr>m_linked := linkStatus d,
       m_log := m_log s @ linkLog d,
       m_timer := Suc (m_timer s),
       m_attribLocations := \<lparr>tangent = attribLocation d ''attrTangent'',
                              bitangent = attribLocation d ''attrBitangent''\<rparr>,
       glCalls := glCalls s @ linkCalls d s\<rparr>)"
proof -
  have nf: "\<And>c. \<not> throws d c" using assms by (simp add: noFault_def)
  note ex = linkAndValidateProgram_def setupProgramParameters_def logActiveUniforms_def
    logActiveAttributes_def exec nf logUniformLines_noFault[OF assms]
    logAttribLines_noFault[OF assms] seq_eq[where m = "logUniformLines d xs" for xs]
    seq_eq[where m = "logAttribLines d xs" for xs]
  show ?thesis
    apply (cases "m_attribLocations s")
    apply (simp add: ex)
    apply (intro conjI impI CShader.equality)
    apply (simp_all add: linkLog_def linkCalls_def uniformQueries_def attribQueries_def)
    done
qed

lemma setupInitialUniforms_exact:
  assumes "noFault d"
  shows "setupInitialUniforms d s =
    (Returned (),
     s\<lparr>glCalls := glCalls s @ [glGetProgramiv (m_program s) GL_ACTIVE_UNIFORMS]
                   @ uniformQueries d (m_program s),
       m_oldUniforms := m_activeUniforms s,
       m_activeUniforms := reflectedUniforms d\<rparr>)"
proof -
  have nf: "\<And>c. \<not> throws d c" using assms by (simp add: noFault_def)
  show ?thesis
    apply (simp add: setupInitialUniforms_def exec nf readActiveUniforms_noFault[OF assms]
        seq_eq[where m = "readActiveUniforms d xs ys" for xs ys])
    apply (intro conjI impI CShader.equality)
    apply (simp_all add: uniformQueries_def reflectedUniforms_def)
    done
qed


lemma compileAndLink2_cases:
  assumes "noFault d"
  shows "compileAndLink2 d s =
     (if createProgram d = 0
      then (Returned False,
            (beforeStages d s)\<lparr>m_log := [Text ''ERROR: Failed on glCreateProgram()\<newline>'']\<rparr>)
      else if \<not> list_all (stageCompiles d s) [0..<MAX_SHADER_TYPES]
      then (Returned False, afterStages d s)
      else if \<not> linkStatus d
      then (Returned False, snd (linkAndValidateProgram d (afterStages d s)))
      else (Returned True,
            setupRememberedUniformState
              (snd (setupInitialUniforms d
                 (snd (linkAndValidateProgram d (afterStages d s)))))))"
proof -
  define s2 where "s2 = beforeStages d s"
  define ok where "ok = list_all (stageCompiles d s) [0..<MAX_SHADER_TYPES]"
  have fr: "stageCompiles d s2 = stageCompiles d s" "stageLog d s2 = stageLog d s"
    "stageCalls d s2 = stageCalls d s" "stageAttempted s2 = stageAttempted s"
    by (rule stage_frame stageAttempted_frame; simp add: s2_def beforeStages_def)+
  have "compileStages d [0..<MAX_SHADER_TYPES] True s2 =
          (Returned (True \<and> list_all (stageCompiles d s2) [0..<MAX_SHADER_TYPES]),
           s2\<lparr>m_log := m_log s2 @ concat (map (stageLog d s2) [0..<MAX_SHADER_TYPES]),
              m_shaders := (\<lambda>k. if k \<in> set [0..<MAX_SHADER_TYPES] \<and> stageAttempted s2 k
                                 then createShader d k else m_shaders s2 k),
              glCalls := glCalls s2 @
                concat (map (stageCalls d s2 (m_program s2)) [0..<MAX_SHADER_TYPES])\<rparr>)"
    by (rule compileStages_noFault[OF assms]) (simp_all add: s2_def beforeStages_def)
  also have "s2\<lparr>m_log := m_log s2 @ concat (map (stageLog d s2) [0..<MAX_SHADER_TYPES]),
              m_shaders := (\<lambda>k. if k \<in> set [0..<MAX_SHADER_TYPES] \<and> stageAttempted s2 k
                                 then createShader d k else m_shaders s2 k),
              glCalls := glCalls s2 @
                concat (map (stageCalls d s2 (m_program s2)) [0..<MAX_SHADER_TYPES])\<rparr>
        = afterStages d s"
    unfolding fr
    by (rule CShader.equality) (auto simp add: s2_def afterStages_def beforeStages_def fun_eq_iff)
  finally have cs: "compileStages d [0..<MAX_SHADER_TYPES] True s2 = (Returned ok, afterStages d s)"
    by (simp add: fr ok_def)
  have step: "seq (compileStages d [0..<MAX_SHADER_TYPES] True) f s2 = f ok (afterStages d s)" for f
    by (simp add: seq_def cs)
  show ?thesis
    unfolding ok_def[symmetric]
    by (simp add: compileAndLink2_prefix[OF assms] Let_def beforeStages_def[symmetric]
          s2_def[symmetric] step seq_if seq_ret seq_seq seq_assign ret_def
          seq_fst[OF linkAndValidateProgram_noFault(1)[OF assms]]
          seq_fst[OF setupInitialUniforms_noFault(1)[OF assms]])
qed

lemma compileAndLink_state:
  assumes "noFault d"
  shows "snd (compileAndLink d s) =
     (if createProgram d = 0
      then (beforeStages d s)\<lparr>m_log := [Text ''ERROR: Failed on glCreateProgram()\<newline>'']\<rparr>
      else if \<not> list_all (stageCompiles d s) [0..<MAX_SHADER_TYPES]
      then afterStages d s
      else (afterStages d s)
        \<lparr>m_linked := linkStatus d,
         m_log := concat (map (stageLog d s) [0..<MAX_SHADER_TYPES]) @ linkLog d,
         m_timer := Suc (m_timer s),
         m_attribLocations := \<lparr>tangent = attribLocation d ''attrTangent'',
                                bitangent = attribLocation d ''attrBitangent''\<rparr>,
         glCalls := glCalls (afterStages d s) @ linkCalls d (afterStages d s) @
           (if linkStatus d
            then [glGetProgramiv (createProgram d) GL_ACTIVE_UNIFORMS]
                 @ uniformQueries d (createProgram d)
            else []),
         m_oldUniforms := (if linkStatus d then m_activeUniforms s else m_oldUniforms s),
         m_activeUniforms := (if linkStatus d
                              then rememberAll (m_activeUniforms s) (reflectedUniforms d)
                              else m_activeUniforms s)\<rparr>)"
  unfolding compileAndLink_noFault[OF assms] compileAndLink2_cases[OF assms]
    linkAndValidateProgram_exact[OF assms] setupInitialUniforms_exact[OF assms]
  apply (simp add: setupRememberedUniformState_def)
  apply (intro conjI impI CShader.equality)
  apply (simp_all add: afterStages_def beforeStages_def)
  done

section \<open>setUniform and the readers\<close>

text \<open>
  Claim C9: \<open>setUniform( index, value )\<close> leaves the shader object, and so the uniform
  table, unchanged whenever the stored entry at the index differs from the value in
  name, type or location; the table changes only for a linked program, an index in
  range and a value that matches the stored entry in all three, and then the entry at
  that index is replaced by the value.
\<close>

theorem setUniform_guard:
  "((m_name (m_activeUniforms s ! nat index) \<noteq> m_name u
      \<or> m_type (m_activeUniforms s ! nat index) \<noteq> m_type u
      \<or> m_location (m_activeUniforms s ! nat index) \<noteq> m_location u)
     \<longrightarrow> setUniform index u s = s)
   \<and> (setUniform index u s \<noteq> s \<longrightarrow>
        m_linked s \<and> 0 \<le> index \<and> index < int (length (m_activeUniforms s))
        \<and> m_name (m_activeUniforms s ! nat index) = m_name u
        \<and> m_type (m_activeUniforms s ! nat index) = m_type u
        \<and> m_location (m_activeUniforms s ! nat index) = m_location u)
   \<and> (m_linked s \<and> 0 \<le> index \<and> index < int (length (m_activeUniforms s))
        \<and> m_name (m_activeUniforms s ! nat index) = m_name u
        \<and> m_type (m_activeUniforms s ! nat index) = m_type u
        \<and> m_location (m_activeUniforms s ! nat index) = m_location u
       \<longrightarrow> setUniform index u s = s\<lparr>m_activeUniforms := (m_activeUniforms s)[nat index := u]\<rparr>)"
  by (simp add: setUniform_def Let_def)

theorem setUniform_guard_witness:
  "m_location (m_activeUniforms (withTable [] [CUniform_ctor ''foo'' GL_FLOAT_VEC3 7]) ! nat 0)
     \<noteq> m_location (CUniform_ctor ''foo'' GL_FLOAT_VEC3 3)
   \<and> setUniform 0 (CUniform_ctor ''foo'' GL_FLOAT_VEC3 3)
        (withTable [] [CUniform_ctor ''foo'' GL_FLOAT_VEC3 7])
      = withTable [] [CUniform_ctor ''foo'' GL_FLOAT_VEC3 7]
   \<and> m_activeUniforms (setUniform 0 ((CUniform_ctor ''foo'' GL_FLOAT_VEC3 7)\<lparr>m_data := vec123\<rparr>)
        (withTable [] [CUniform_ctor ''foo'' GL_FLOAT_VEC3 7]))
      = [(CUniform_ctor ''foo'' GL_FLOAT_VEC3 7)\<lparr>m_data := vec123\<rparr>]"
  using setUniform_guard [of "withTable [] [CUniform_ctor ''foo'' GL_FLOAT_VEC3 7]" 0
          "CUniform_ctor ''foo'' GL_FLOAT_VEC3 3"]
        setUniform_guard [of "withTable [] [CUniform_ctor ''foo'' GL_FLOAT_VEC3 7]" 0
          "(CUniform_ctor ''foo'' GL_FLOAT_VEC3 7)\<lparr>m_data := vec123\<rparr>"]
  by (simp add: withTable_def CShader_ctor_def ctor_fields)

text \<open>
  Claim C10: while the link status is false, \<open>getActiveUniforms\<close> returns 0 and
  \<open>getUniform\<close> returns a default constructed uniform (empty name, type 0, location
  -1), whatever table is still stored; \<open>getUniform\<close> returns the same default for any
  index outside the range of the count; neither reader changes the state.
\<close>

theorem readers_when_unlinked_or_out_of_range:
  "(\<not> m_linked s \<longrightarrow>
       getActiveUniforms s = (0, s) \<and> getUniform index s = (CUniform_ctor [] 0 (-1), s))
   \<and> (index < 0 \<or> index \<ge> fst (getActiveUniforms s) \<longrightarrow>
       getUniform index s = (CUniform_ctor [] 0 (-1), s))
   \<and> m_name (CUniform_ctor [] 0 (-1)) = [] \<and> m_type (CUniform_ctor [] 0 (-1)) = 0
   \<and> m_location (CUniform_ctor [] 0 (-1)) = -1
   \<and> snd (getActiveUniforms s) = s \<and> snd (getUniform index s) = s"
  by (auto simp: getActiveUniforms_def getUniform_def ctor_fields)

theorem readers_when_unlinked_or_out_of_range_witness:
  "\<not> m_linked ((withTable [] [CUniform_ctor ''foo'' GL_FLOAT_VEC3 7])\<lparr>m_linked := False\<rparr>)
   \<and> m_activeUniforms ((withTable [] [CUniform_ctor ''foo'' GL_FLOAT_VEC3 7])\<lparr>m_linked := False\<rparr>)
       = [CUniform_ctor ''foo'' GL_FLOAT_VEC3 7]
   \<and> fst (getActiveUniforms ((withTable [] [CUniform_ctor ''foo'' GL_FLOAT_VEC3 7])\<lparr>m_linked := False\<rparr>)) = 0
   \<and> fst (getUniform 0 ((withTable [] [CUniform_ctor ''foo'' GL_FLOAT_VEC3 7])\<lparr>m_linked := False\<rparr>))
       = CUniform_ctor [] 0 (-1)
   \<and> (1::int) \<ge> fst (getActiveUniforms (withTable [] [CUniform_ctor ''foo'' GL_FLOAT_VEC3 7]))
   \<and> getUniform 1 (withTable [] [CUniform_ctor ''foo'' GL_FLOAT_VEC3 7])
       = (CUniform_ctor [] 0 (-1), withTable [] [CUniform_ctor ''foo'' GL_FLOAT_VEC3 7])"
  using readers_when_unlinked_or_out_of_range
          [of "(withTable [] [CUniform_ctor ''foo'' GL_FLOAT_VEC3 7])\<lparr>m_linked := False\<rparr>" 0]
        readers_when_unlinked_or_out_of_range
          [of "withTable [] [CUniform_ctor ''foo'' GL_FLOAT_VEC3 7]" 1]
  by (simp add: withTable_def CShader_ctor_def getActiveUniforms_def)

section \<open>Migration of uniform values\<close>

lemma copy_fields:
  "m_name (CUniform_copy u l) = m_name u" "m_type (CUniform_copy u l) = m_type u"
  "m_location (CUniform_copy u l) = l" "m_data (CUniform_copy u l) = m_data u"
  by (simp_all add: CUniform_copy_def)

lemma rememberOne_map:
  "rememberOne old active =
     map (\<lambda>neu. if sameKey old neu then CUniform_copy old (m_location neu) else neu) active"
  by (induction active) (auto simp: sameKey_def)

lemma find_snoc:
  "find P (xs @ [x]) = (case find P xs of Some y \<Rightarrow> Some y | None \<Rightarrow> if P x then Some x else None)"
  by (induction xs) auto

lemma find_app:
  "find P (xs @ ys) = (case find P xs of None \<Rightarrow> find P ys | Some x \<Rightarrow> Some x)"
  by (induction xs) auto

lemma rememberAll_map:
  "rememberAll olds active =
     map (\<lambda>neu. case find (\<lambda>old. sameKey old neu) (rev olds) of
                  None \<Rightarrow> neu
                | Some old \<Rightarrow> CUniform_copy old (m_location neu)) active"
proof (induction olds arbitrary: active)
  case Nil
  show ?case by (simp add: map_idI)
next
  case (Cons old rest)
  show ?case
    by (simp add: Cons.IH rememberOne_map find_snoc sameKey_def copy_fields
             split: option.splits)
qed

lemma rememberAll_length: "length (rememberAll olds active) = length active"
  by (simp add: rememberAll_map)

text \<open>
  The general rule, duplicates included: migration keeps the length of the new table,
  and a new entry becomes a copy, at its own location, of the last old entry with its
  name and type, or stays as it is when there is none.
\<close>

lemma migration_last_match:
  "length (m_activeUniforms (setupRememberedUniformState s)) = length (m_activeUniforms s)
   \<and> (\<forall>j < length (m_activeUniforms s).
        m_activeUniforms (setupRememberedUniformState s) ! j =
          (case find (\<lambda>old. sameKey old (m_activeUniforms s ! j)) (rev (m_oldUniforms s)) of
             None \<Rightarrow> m_activeUniforms s ! j
           | Some old \<Rightarrow> CUniform_copy old (m_location (m_activeUniforms s ! j))))"
  by (simp add: setupRememberedUniformState_def rememberAll_map)

lemma find_last_match:
  assumes "olds = before @ old # after"
    and "\<forall>x \<in> set after. \<not> sameKey x old"
    and "sameKey old neu"
  shows "find (\<lambda>x. sameKey x neu) (rev olds) = Some old"
proof -
  have k: "\<And>x. sameKey x neu = sameKey x old"
    using assms(3) by (auto simp: sameKey_def)
  have "find (\<lambda>x. sameKey x old) (rev after) = None"
    using assms(2) by (simp add: find_None_iff)
  then show ?thesis
    using assms(3) by (simp add: assms(1) k find_app sameKey_def)
qed

lemma find_distinct_match:
  assumes "distinctKeys olds" and "old \<in> set olds" and "sameKey old neu"
  shows "find (\<lambda>x. sameKey x neu) (rev olds) = Some old"
proof -
  from assms(2) obtain before after where sp: "olds = before @ old # after"
    by (auto simp: in_set_conv_decomp)
  have "\<not> sameKey x old" if "x \<in> set after" for x
  proof
    assume "sameKey x old"
    then have "(m_name x, m_type x) = (m_name old, m_type old)" by (simp add: sameKey_def)
    moreover have "(m_name old, m_type old) \<notin> (\<lambda>u. (m_name u, m_type u)) ` set after"
      using assms(1) by (simp add: distinctKeys_def sp)
    ultimately show False using that by (metis (no_types, lifting) image_eqI)
  qed
  then show ?thesis using find_last_match[OF sp _ assms(3)] by blast
qed

lemma rememberAll_distinct:
  assumes "distinctKeys olds" and "j < length active"
  shows "\<forall>old\<in>set olds. sameKey old (active ! j) \<longrightarrow>
           rememberAll olds active ! j = CUniform_copy old (m_location (active ! j))"
    and "(\<forall>old\<in>set olds. \<not> sameKey old (active ! j)) \<longrightarrow>
           rememberAll olds active ! j = active ! j"
proof -
  show "\<forall>old\<in>set olds. sameKey old (active ! j) \<longrightarrow>
           rememberAll olds active ! j = CUniform_copy old (m_location (active ! j))"
    using assms(2) by (simp add: rememberAll_map find_distinct_match[OF assms(1)])
  show "(\<forall>old\<in>set olds. \<not> sameKey old (active ! j)) \<longrightarrow>
           rememberAll olds active ! j = active ! j"
  proof
    assume "\<forall>old\<in>set olds. \<not> sameKey old (active ! j)"
    then have "find (\<lambda>old. sameKey old (active ! j)) (rev olds) = None"
      by (simp add: find_None_iff)
    then show "rememberAll olds active ! j = active ! j"
      using assms(2) by (simp add: rememberAll_map)
  qed
qed

text \<open>
  Claim C5, amended. Migration does not stop at the first match. Let \<open>old\<close> be an
  old-table entry that no later old entry matches in name and type. Then \<^emph>\<open>every\<close>
  new-table entry with the name and type of \<open>old\<close>, the first as well as any later
  duplicate, becomes a copy of \<open>old\<close> at that new entry's own location.
\<close>

theorem migration_every_duplicate:
  assumes "m_oldUniforms s = before @ old # after"
    and "\<forall>x \<in> set after. \<not> sameKey x old"
    and "j < length (m_activeUniforms s)"
    and "sameKey old (m_activeUniforms s ! j)"
  shows "m_activeUniforms (setupRememberedUniformState s) ! j =
           CUniform_copy old (m_location (m_activeUniforms s ! j))"
proof -
  have k: "\<And>x. sameKey x (m_activeUniforms s ! j) = sameKey x old"
    using assms(4) by (auto simp: sameKey_def)
  have "find (\<lambda>x. sameKey x old) (rev after) = None"
    using assms(2) by (simp add: find_None_iff)
  then have "find (\<lambda>x. sameKey x (m_activeUniforms s ! j)) (rev (m_oldUniforms s)) = Some old"
    using assms(4) by (simp add: assms(1) k find_app sameKey_def)
  then show ?thesis
    using assms(3) by (simp add: setupRememberedUniformState_def rememberAll_map)
qed

theorem migration_every_duplicate_witness:
  "m_oldUniforms (withTable [(CUniform_ctor ''foo'' GL_FLOAT_VEC3 3)\<lparr>m_data := vec123\<rparr>]
        [CUniform_ctor ''foo'' GL_FLOAT_VEC3 7, CUniform_ctor ''foo'' GL_FLOAT_VEC3 8])
     = [] @ (CUniform_ctor ''foo'' GL_FLOAT_VEC3 3)\<lparr>m_data := vec123\<rparr> # []
   \<and> (1::nat) < length (m_activeUniforms (withTable
        [(CUniform_ctor ''foo'' GL_FLOAT_VEC3 3)\<lparr>m_data := vec123\<rparr>]
        [CUniform_ctor ''foo'' GL_FLOAT_VEC3 7, CUniform_ctor ''foo'' GL_FLOAT_VEC3 8]))
   \<and> sameKey ((CUniform_ctor ''foo'' GL_FLOAT_VEC3 3)\<lparr>m_data := vec123\<rparr>)
        (m_activeUniforms (withTable
          [(CUniform_ctor ''foo'' GL_FLOAT_VEC3 3)\<lparr>m_data := vec123\<rparr>]
          [CUniform_ctor ''foo'' GL_FLOAT_VEC3 7, CUniform_ctor ''foo'' GL_FLOAT_VEC3 8]) ! 1)
   \<and> m_activeUniforms (setupRememberedUniformState (withTable
        [(CUniform_ctor ''foo'' GL_FLOAT_VEC3 3)\<lparr>m_data := vec123\<rparr>]
        [CUniform_ctor ''foo'' GL_FLOAT_VEC3 7, CUniform_ctor ''foo'' GL_FLOAT_VEC3 8])) ! 1
     = \<lparr>m_name = ''foo'', m_type = GL_FLOAT_VEC3, m_location = 8, m_data = vec123\<rparr>"
proof -
  let ?old = "(CUniform_ctor ''foo'' GL_FLOAT_VEC3 3)\<lparr>m_data := vec123\<rparr>"
  let ?s = "withTable [?old]
        [CUniform_ctor ''foo'' GL_FLOAT_VEC3 7, CUniform_ctor ''foo'' GL_FLOAT_VEC3 8]"
  have h1: "m_oldUniforms ?s = [] @ ?old # []" by (simp add: withTable_def CShader_ctor_def)
  have h2: "\<forall>x \<in> set []. \<not> sameKey x ?old" by simp
  have h3: "1 < length (m_activeUniforms ?s)" by (simp add: withTable_def CShader_ctor_def)
  have h4: "sameKey ?old (m_activeUniforms ?s ! 1)"
    by (simp add: withTable_def CShader_ctor_def sameKey_def ctor_fields)
  have "m_activeUniforms (setupRememberedUniformState ?s) ! 1 =
          CUniform_copy ?old (m_location (m_activeUniforms ?s ! 1))"
    by (rule migration_every_duplicate [OF h1 h2 h3 h4])
  then show ?thesis using h1 h3 h4
    by (simp add: withTable_def CShader_ctor_def ctor_fields CUniform_copy_def)
qed

text \<open>
  Claim C5 as stated fails: with one old \<open>foo\<close> holding \<open>(1, 2, 3)\<close> and two new
  entries \<open>foo\<close> of the same type, the second new entry does not keep its reflected
  default but receives \<open>(1, 2, 3)\<close> as well.
\<close>

theorem migration_later_duplicate_counterexample:
  "m_data (m_activeUniforms (setupRememberedUniformState (withTable
        [(CUniform_ctor ''foo'' GL_FLOAT_VEC3 3)\<lparr>m_data := vec123\<rparr>]
        [CUniform_ctor ''foo'' GL_FLOAT_VEC3 7, CUniform_ctor ''foo'' GL_FLOAT_VEC3 8])) ! 1)
     = vec123
   \<and> m_data (CUniform_ctor ''foo'' GL_FLOAT_VEC3 8) \<noteq> vec123"
proof -
  have "m_data (CUniform_ctor ''foo'' GL_FLOAT_VEC3 8) =
     [float_0_1, float_0_2, float_0_3, float_0_4, 0, 0, 0, 0, 0, 0, 0, 0, 0, 0, 0, 0]"
    by (rule ctor_data_other) (simp_all add: gl_types)
  then show ?thesis
    by (simp add: setupRememberedUniformState_def withTable_def CShader_ctor_def
          ctor_fields CUniform_copy_def vec123_def float_bits)
qed

lemma noFault_quiet: "noFault quietDriver"
  by (simp add: noFault_def quietDriver_def)

lemma noFault_validateStatus: "noFault (d\<lparr>validateStatus := v\<rparr>) = noFault d"
  by (simp add: noFault_def)

lemma stageCompiles_validateStatus:
  "stageCompiles (d\<lparr>validateStatus := v\<rparr>) s i = stageCompiles d s i"
  by (simp add: stageCompiles_def)

lemma list_all_stages:
  "list_all P [0..<MAX_SHADER_TYPES] = (\<forall>i<MAX_SHADER_TYPES. P i)"
  by (auto simp: list_all_iff)

section \<open>bindState\<close>

lemma bindUniforms_noFault:
  assumes "noFault d"
  shows "fst (bindUniforms d clock is s) = Returned ()
         \<and> m_linked (snd (bindUniforms d clock is s)) = m_linked s
         \<and> m_program (snd (bindUniforms d clock is s)) = m_program s
         \<and> m_attribLocations (snd (bindUniforms d clock is s)) = m_attribLocations s"
proof (induction "is" arbitrary: s)
  case Nil
  show ?case by (simp add: ret_def)
next
  case (Cons i rest)
  have nf: "\<And>c. \<not> throws d c" using assms by (simp add: noFault_def)
  show ?case
    by (simp add: exec nf applyToGL_def Cons.IH split: option.splits)
qed

lemma bindState_linked:
  assumes "noFault d" "m_program s \<noteq> 0" "m_linked s"
  shows "fst (bindState d clock s) = Returned (True, m_attribLocations s)"
proof -
  have nf: "\<And>c. \<not> throws d c" using assms by (simp add: noFault_def)
  have b: "fst (bindUniforms d clock xs t) = Returned ()" for xs t
    using bindUniforms_noFault[OF assms(1)] by simp
  show ?thesis
    using assms(2,3)
    by (simp add: bindState_def rd_def seq_gl nf seq_fst[OF b] ret_def)
qed

lemma bindState_unlinked:
  assumes "\<not> throws d (glUseProgram 0)" "m_program s = 0 \<or> \<not> m_linked s"
  shows "bindState d clock s =
    (Returned (False, VertexAttribLocations_ctor (-1) (-1)),
     s\<lparr>glCalls := glCalls s @ [glUseProgram 0]\<rparr>)"
  using assms by (auto simp: bindState_def rd_def seq_gl ret_def)

section \<open>Link status and validation\<close>

lemma linkLog_validateStatus:
  "linkLog d = take 2 (linkLog d) @
      Text (''Validation: '' @ (if validateStatus d then ''succeeded'' else ''failed'')
            @ ''\<newline>'') # drop 3 (linkLog d)"
  "take 2 (linkLog (d\<lparr>validateStatus := v\<rparr>)) = take 2 (linkLog d)"
  "drop 3 (linkLog (d\<lparr>validateStatus := v\<rparr>)) = drop 3 (linkLog d)"
  by (simp_all add: linkLog_def)

lemma stage_validateStatus:
  "stageLog (d\<lparr>validateStatus := v\<rparr>) = stageLog d"
  "stageCalls (d\<lparr>validateStatus := v\<rparr>) = stageCalls d"
  "stageCompiles (d\<lparr>validateStatus := v\<rparr>) = stageCompiles d"
  by (simp_all add: fun_eq_iff stageLog_def stageCalls_def stageCompiles_def)

lemma build_validateStatus:
  "beforeStages (d\<lparr>validateStatus := v\<rparr>) s = beforeStages d s"
  "afterStages (d\<lparr>validateStatus := v\<rparr>) s = afterStages d s"
  "linkCalls (d\<lparr>validateStatus := v\<rparr>) t = linkCalls d t"
  "uniformQueries (d\<lparr>validateStatus := v\<rparr>) p = uniformQueries d p"
  "reflectedUniforms (d\<lparr>validateStatus := v\<rparr>) = reflectedUniforms d"
proof -
  show "beforeStages (d\<lparr>validateStatus := v\<rparr>) s = beforeStages d s"
    by (simp add: beforeStages_def)
  show "afterStages (d\<lparr>validateStatus := v\<rparr>) s = afterStages d s"
    by (rule CShader.equality)
       (auto simp add: afterStages_def beforeStages_def stage_validateStatus fun_eq_iff)
  show "linkCalls (d\<lparr>validateStatus := v\<rparr>) t = linkCalls d t"
    "uniformQueries (d\<lparr>validateStatus := v\<rparr>) p = uniformQueries d p"
    "reflectedUniforms (d\<lparr>validateStatus := v\<rparr>) = reflectedUniforms d"
    by (simp_all add: linkCalls_def uniformQueries_def attribQueries_def reflectedUniforms_def)
qed

text \<open>
  Claim C2, amended. For a driver that raises no exception, the result of
  \<open>compileAndLink\<close> and the link-status flag it leaves are both decided by the link
  step alone: they are true exactly when the program object was created, every
  attempted stage compiled, and the driver reports the link as successful. The
  outcome of the validation that follows changes neither of them. It is only written
  to the build log: whenever the link step is reached (the program object was created
  and every attempted stage compiled), the log holds the piece
  \<open>Validation: succeeded\<close> or \<open>Validation: failed\<close> according to the outcome; a
  different outcome \<open>v\<close> changes this one piece of the log and nothing else, neither
  another piece of the log nor any other field of the shader object nor any driver
  call; and when the link step is not reached, the outcome changes nothing at all.
\<close>

theorem link_status_ignores_validation:
  assumes "noFault d"
  shows "fst (compileAndLink d s) =
           Returned (createProgram d \<noteq> 0
                     \<and> (\<forall>i<MAX_SHADER_TYPES. stageCompiles d s i) \<and> linkStatus d)
       \<and> m_linked (snd (compileAndLink d s)) =
           (createProgram d \<noteq> 0
            \<and> (\<forall>i<MAX_SHADER_TYPES. stageCompiles d s i) \<and> linkStatus d)
       \<and> fst (compileAndLink (d\<lparr>validateStatus := v\<rparr>) s) = fst (compileAndLink d s)
       \<and> m_linked (snd (compileAndLink (d\<lparr>validateStatus := v\<rparr>) s))
           = m_linked (snd (compileAndLink d s))
       \<and> (createProgram d \<noteq> 0 \<and> (\<forall>i<MAX_SHADER_TYPES. stageCompiles d s i) \<longrightarrow>
            Text (''Validation: '' @ (if validateStatus d then ''succeeded'' else ''failed'')
                  @ ''\<newline>'')
              \<in> set (getBuildLog (snd (compileAndLink d s))))
       \<and> (snd (compileAndLink (d\<lparr>validateStatus := v\<rparr>) s))\<lparr>m_log := l\<rparr>
           = (snd (compileAndLink d s))\<lparr>m_log := l\<rparr>
       \<and> (createProgram d \<noteq> 0 \<and> (\<forall>i<MAX_SHADER_TYPES. stageCompiles d s i) \<longrightarrow>
            (\<exists>pre post.
               getBuildLog (snd (compileAndLink d s)) =
                 pre @ Text (''Validation: '' @
                             (if validateStatus d then ''succeeded'' else ''failed'')
                             @ ''\<newline>'') # post
               \<and> getBuildLog (snd (compileAndLink (d\<lparr>validateStatus := v\<rparr>) s)) =
                 pre @ Text (''Validation: '' @ (if v then ''succeeded'' else ''failed'')
                             @ ''\<newline>'') # post))
       \<and> (\<not> (createProgram d \<noteq> 0 \<and> (\<forall>i<MAX_SHADER_TYPES. stageCompiles d s i)) \<longrightarrow>
            snd (compileAndLink (d\<lparr>validateStatus := v\<rparr>) s) = snd (compileAndLink d s))"
proof -
  let ?d = "d\<lparr>validateStatus := v\<rparr>"
  let ?val = "\<lambda>b. Text (''Validation: '' @ (if b then ''succeeded'' else ''failed'')
                        @ ''\<newline>'')"
  let ?stages = "concat (map (stageLog d s) [0..<MAX_SHADER_TYPES])"
  have nv: "noFault ?d"
    using assms by (simp add: noFault_validateStatus)
  have r: "fst (compileAndLink d s) =
           Returned (createProgram d \<noteq> 0
                     \<and> (\<forall>i<MAX_SHADER_TYPES. stageCompiles d s i) \<and> linkStatus d)
       \<and> m_linked (snd (compileAndLink d s)) =
           (createProgram d \<noteq> 0
            \<and> (\<forall>i<MAX_SHADER_TYPES. stageCompiles d s i) \<and> linkStatus d)
       \<and> fst (compileAndLink ?d s) = fst (compileAndLink d s)
       \<and> m_linked (snd (compileAndLink ?d s)) = m_linked (snd (compileAndLink d s))"
    by (simp add: compileAndLink_noFault[OF assms] compileAndLink_noFault[OF nv]
          compileAndLink2_noFault[OF assms] compileAndLink2_noFault[OF nv]
          list_all_stages stageCompiles_validateStatus)
  have lg: "getBuildLog (snd (compileAndLink d s)) = ?stages @ linkLog d"
    and lg': "getBuildLog (snd (compileAndLink ?d s)) = ?stages @ linkLog ?d"
    if "createProgram d \<noteq> 0" "\<forall>i<MAX_SHADER_TYPES. stageCompiles d s i"
    using that
    by (simp_all add: getBuildLog_def compileAndLink_state[OF assms]
          compileAndLink_state[OF nv] list_all_stages stage_validateStatus)
  have m: "?val (validateStatus d) \<in> set (getBuildLog (snd (compileAndLink d s)))"
    if "createProgram d \<noteq> 0" "\<forall>i<MAX_SHADER_TYPES. stageCompiles d s i"
    unfolding lg[OF that] by (simp add: linkLog_def)
  have e: "\<exists>pre post.
               getBuildLog (snd (compileAndLink d s)) = pre @ ?val (validateStatus d) # post
               \<and> getBuildLog (snd (compileAndLink ?d s)) = pre @ ?val v # post"
    if "createProgram d \<noteq> 0" "\<forall>i<MAX_SHADER_TYPES. stageCompiles d s i"
  proof (intro exI conjI)
    show "getBuildLog (snd (compileAndLink d s)) =
            (?stages @ take 2 (linkLog d)) @ ?val (validateStatus d) # drop 3 (linkLog d)"
      unfolding lg[OF that] using linkLog_validateStatus(1)[of d] by simp
    show "getBuildLog (snd (compileAndLink ?d s)) =
            (?stages @ take 2 (linkLog d)) @ ?val v # drop 3 (linkLog d)"
      unfolding lg'[OF that]
      using linkLog_validateStatus(1)[of ?d] linkLog_validateStatus(2,3)[where d = d and v = v] by simp
  qed
  have q: "(snd (compileAndLink ?d s))\<lparr>m_log := l\<rparr> = (snd (compileAndLink d s))\<lparr>m_log := l\<rparr>"
    by (simp add: compileAndLink_state[OF assms] compileAndLink_state[OF nv]
          build_validateStatus stage_validateStatus)
  have n: "snd (compileAndLink ?d s) = snd (compileAndLink d s)"
    if "\<not> (createProgram d \<noteq> 0 \<and> (\<forall>i<MAX_SHADER_TYPES. stageCompiles d s i))"
    using that
    by (auto simp add: compileAndLink_state[OF assms] compileAndLink_state[OF nv]
          build_validateStatus stage_validateStatus list_all_stages)
  show ?thesis using r m e q n by blast
qed

lemma vertexOnly_compiles:
  "noFault d \<Longrightarrow> createShader d 0 \<noteq> 0 \<Longrightarrow> compileStatus d 0 \<Longrightarrow>
   (\<forall>i<MAX_SHADER_TYPES. stageCompiles d vertexOnly i)"
  by (auto simp: stageCompiles_def stageAttempted_def isShaderTypeAvailable_def
        vertexOnly_def setShaderSource_def CShader_ctor_def MAX_SHADER_TYPES_def
        TYPE_VERTEX_def TYPE_GEOMETRY_def TYPE_FRAGMENT_def)

theorem link_status_ignores_validation_witness:
  "noFault (quietDriver\<lparr>linkStatus := False\<rparr>)
   \<and> fst (compileAndLink (quietDriver\<lparr>linkStatus := False\<rparr>) vertexOnly) = Returned False
   \<and> \<not> m_linked (snd (compileAndLink (quietDriver\<lparr>linkStatus := False\<rparr>) vertexOnly))
   \<and> createProgram (quietDriver\<lparr>linkStatus := False\<rparr>) \<noteq> 0
   \<and> stageCompiles (quietDriver\<lparr>linkStatus := False\<rparr>) vertexOnly 0
   \<and> stageCompiles (quietDriver\<lparr>linkStatus := False\<rparr>) vertexOnly 1
   \<and> stageCompiles (quietDriver\<lparr>linkStatus := False\<rparr>) vertexOnly 2
   \<and> Text ''Validation: succeeded\<newline>''
       \<in> set (getBuildLog (snd (compileAndLink (quietDriver\<lparr>linkStatus := False\<rparr>) vertexOnly)))
   \<and> (snd (compileAndLink (quietDriver\<lparr>linkStatus := False, validateStatus := False\<rparr>)
              vertexOnly))\<lparr>m_log := []\<rparr>
       = (snd (compileAndLink (quietDriver\<lparr>linkStatus := False\<rparr>) vertexOnly))\<lparr>m_log := []\<rparr>"
proof -
  let ?d = "quietDriver\<lparr>linkStatus := False\<rparr>"
  have nf: "noFault ?d"
    by (simp add: noFault_def quietDriver_def)
  have c: "\<forall>i<MAX_SHADER_TYPES. stageCompiles ?d vertexOnly i"
    by (rule vertexOnly_compiles[OF nf]) (simp_all add: quietDriver_def)
  have c3: "stageCompiles ?d vertexOnly 0" "stageCompiles ?d vertexOnly 1"
    "stageCompiles ?d vertexOnly 2"
    using c by (simp_all add: MAX_SHADER_TYPES_def)
  have p: "createProgram ?d \<noteq> 0" "validateStatus ?d" "\<not> linkStatus ?d"
    by (simp_all add: quietDriver_def)
  show ?thesis
    using nf c c3 p link_status_ignores_validation [OF nf, of vertexOnly False "[]"]
    by simp
qed

text \<open>
  Claim C2 as stated fails: the link succeeds, the validation fails, and yet
  \<open>compileAndLink\<close> returns true and the link-status flag is true.
\<close>

theorem validation_failure_counterexample:
  "linkStatus (quietDriver\<lparr>validateStatus := False\<rparr>)
   \<and> \<not> validateStatus (quietDriver\<lparr>validateStatus := False\<rparr>)
   \<and> fst (compileAndLink (quietDriver\<lparr>validateStatus := False\<rparr>) vertexOnly) = Returned True
   \<and> m_linked (snd (compileAndLink (quietDriver\<lparr>validateStatus := False\<rparr>) vertexOnly))"
proof -
  let ?d = "quietDriver\<lparr>validateStatus := False\<rparr>"
  have nf: "noFault ?d" by (simp add: noFault_def quietDriver_def)
  have c: "\<forall>i<MAX_SHADER_TYPES. stageCompiles ?d vertexOnly i"
    by (rule vertexOnly_compiles[OF nf]) (simp_all add: quietDriver_def)
  have p: "createProgram ?d \<noteq> 0" "linkStatus ?d" "\<not> validateStatus ?d"
    by (simp_all add: quietDriver_def)
  show ?thesis
    using c p
    by (simp add: compileAndLink_noFault[OF nf] compileAndLink2_noFault[OF nf] list_all_stages)
qed

section \<open>A stage that fails to compile\<close>

text \<open>
  Claim C6. Let the driver raise no exception and create the program object, and let
  some attempted stage fail (the driver creates no shader object for it, or reports
  that it did not compile). Then \<open>compileAndLink\<close> returns false and leaves the
  link-status flag false; every attempted stage, before and after the failing one,
  has its \<open>Compiling ...\<close> line in the build log and, when the driver created its
  shader object, was passed to \<open>glCompileShader\<close> during this attempt and has its
  compiler log in the build log; and no \<open>glLinkProgram\<close> call was made during this
  attempt.
\<close>

theorem compile_failure_no_early_abort:
  assumes "noFault d" and "createProgram d \<noteq> 0"
    and "i < MAX_SHADER_TYPES"
    and "isShaderTypeAvailable s i" and "m_shaderSources s i \<noteq> []"
    and "createShader d i = 0 \<or> \<not> compileStatus d i"
  shows "fst (compileAndLink d s) = Returned False
       \<and> \<not> m_linked (snd (compileAndLink d s))
       \<and> (\<forall>j<MAX_SHADER_TYPES.
             isShaderTypeAvailable s j \<and> m_shaderSources s j \<noteq> [] \<longrightarrow>
               Text (''Compiling '' @ getShaderTypeName j @ ''\<newline>'')
                 \<in> set (getBuildLog (snd (compileAndLink d s)))
               \<and> (createShader d j \<noteq> 0 \<longrightarrow>
                    glCompileShader (createShader d j)
                      \<in> set (callsSince s (snd (compileAndLink d s)))
                    \<and> Text (shaderInfoLog d j @ ''\<newline>'')
                      \<in> set (getBuildLog (snd (compileAndLink d s)))))
       \<and> (\<forall>p. glLinkProgram p \<notin> set (callsSince s (snd (compileAndLink d s))))"
proof -
  have bad: "\<not> list_all (stageCompiles d s) [0..<MAX_SHADER_TYPES]"
    using assms(3-6) by (auto simp: list_all_stages stageCompiles_def stageAttempted_def)
  note cl = compileAndLink_noFault[OF assms(1)]
  note c2 = compileAndLink2_noFault[OF assms(1), of s]
  have r: "fst (compileAndLink d s) = Returned False" using bad by (simp add: cl c2(1))
  have l: "\<not> m_linked (snd (compileAndLink d s))" using bad by (simp add: cl c2(2))
  have lg: "getBuildLog (snd (compileAndLink d s)) =
              concat (map (stageLog d s) [0..<MAX_SHADER_TYPES])"
    by (simp add: getBuildLog_def cl c2(4)[OF assms(2) bad])
  have cs: "callsSince s (snd (compileAndLink d s)) =
              deactivateCalls s @ [glCreateProgram] @
              concat (map (stageCalls d s (createProgram d)) [0..<MAX_SHADER_TYPES])"
    by (simp add: callsSince_def cl c2(5)[OF assms(2) bad])
  have a: "Text (''Compiling '' @ getShaderTypeName j @ ''\<newline>'')
             \<in> set (getBuildLog (snd (compileAndLink d s)))"
    if "j < MAX_SHADER_TYPES" "isShaderTypeAvailable s j" "m_shaderSources s j \<noteq> []" for j
    using that unfolding lg
    by (auto simp: stageLog_def stageAttempted_def intro!: bexI[of _ j])
  have b: "Text (shaderInfoLog d j @ ''\<newline>'')
             \<in> set (getBuildLog (snd (compileAndLink d s)))"
    if "j < MAX_SHADER_TYPES" "isShaderTypeAvailable s j" "m_shaderSources s j \<noteq> []"
       "createShader d j \<noteq> 0" for j
    using that unfolding lg
    by (auto simp: stageLog_def stageAttempted_def intro!: bexI[of _ j])
  have c: "glCompileShader (createShader d j) \<in> set (callsSince s (snd (compileAndLink d s)))"
    if "j < MAX_SHADER_TYPES" "isShaderTypeAvailable s j" "m_shaderSources s j \<noteq> []"
       "createShader d j \<noteq> 0" for j
    using that unfolding cs
    by (auto simp: stageCalls_def stageAttempted_def intro!: bexI[of _ j])
  have n: "glLinkProgram p \<notin> set (callsSince s (snd (compileAndLink d s)))" for p
    unfolding cs
    by (auto simp: stageCalls_def deactivateCalls_def split: if_splits option.splits)
  show ?thesis using r l a b c n by blast
qed

theorem compile_failure_no_early_abort_witness:
  "noFault badVertexDriver \<and> createProgram badVertexDriver \<noteq> 0
   \<and> (0::nat) < MAX_SHADER_TYPES
   \<and> isShaderTypeAvailable threeStages 0 \<and> m_shaderSources threeStages 0 \<noteq> []
   \<and> \<not> compileStatus badVertexDriver 0
   \<and> fst (compileAndLink badVertexDriver threeStages) = Returned False
   \<and> Text ''0(1) : error C0000: syntax error\<newline>''
        \<in> set (getBuildLog (snd (compileAndLink badVertexDriver threeStages)))
   \<and> glCompileShader 4
        \<in> set (callsSince threeStages (snd (compileAndLink badVertexDriver threeStages)))
   \<and> Text ''Compiling Fragment Shader\<newline>''
        \<in> set (getBuildLog (snd (compileAndLink badVertexDriver threeStages)))
   \<and> glLinkProgram 1
        \<notin> set (callsSince threeStages (snd (compileAndLink badVertexDriver threeStages)))"
proof -
  have h1: "noFault badVertexDriver"
    by (simp add: noFault_def badVertexDriver_def quietDriver_def)
  have h2: "createProgram badVertexDriver \<noteq> 0"
    by (simp add: badVertexDriver_def quietDriver_def)
  have h3: "(0::nat) < MAX_SHADER_TYPES" by (simp add: MAX_SHADER_TYPES_def)
  have av: "isShaderTypeAvailable threeStages j" if "j < MAX_SHADER_TYPES" for j
    using that
    by (auto simp: isShaderTypeAvailable_def threeStages_def setShaderSource_def
          CShader_ctor_def MAX_SHADER_TYPES_def TYPE_VERTEX_def TYPE_GEOMETRY_def
          TYPE_FRAGMENT_def)
  have src: "m_shaderSources threeStages 0 \<noteq> []" "m_shaderSources threeStages 2 \<noteq> []"
    by (simp_all add: threeStages_def setShaderSource_def CShader_ctor_def
          MAX_SHADER_TYPES_def)
  have h6: "createShader badVertexDriver 0 = 0 \<or> \<not> compileStatus badVertexDriver 0"
    by (simp add: badVertexDriver_def)
  note t = compile_failure_no_early_abort [OF h1 h2 h3 av[OF h3] src(1) h6]
  have two: "(2::nat) < MAX_SHADER_TYPES" by (simp add: MAX_SHADER_TYPES_def)
  have d: "createShader badVertexDriver 0 = 2" "createShader badVertexDriver 2 = 4"
    "shaderInfoLog badVertexDriver 0 = ''0(1) : error C0000: syntax error''"
    by (simp_all add: badVertexDriver_def quietDriver_def)
  have n: "getShaderTypeName 2 = ''Fragment Shader''"
    by (simp add: getShaderTypeName_def TYPE_VERTEX_def TYPE_GEOMETRY_def TYPE_FRAGMENT_def)
  from t have j0: "Text (shaderInfoLog badVertexDriver 0 @ ''\<newline>'')
        \<in> set (getBuildLog (snd (compileAndLink badVertexDriver threeStages)))"
    using h3 av[OF h3] src(1) d(1) by auto
  from t have j2: "Text (''Compiling '' @ getShaderTypeName 2 @ ''\<newline>'')
        \<in> set (getBuildLog (snd (compileAndLink badVertexDriver threeStages)))"
     "glCompileShader (createShader badVertexDriver 2)
        \<in> set (callsSince threeStages (snd (compileAndLink badVertexDriver threeStages)))"
    using two av[OF two] src(2) d(2) by auto
  show ?thesis
    using h1 h2 h3 av[OF h3] src(1) h6 t j0 j2 by (simp add: d n)
qed

section \<open>Empty sources\<close>

text \<open>
  Claim C7 says that with three empty sources \<open>compileAndLink\<close> returns true and the
  following \<open>bindState\<close> returns false. In the code no stage is attempted, but the
  empty program is created and linked all the same: for a driver that raises no
  exception, \<open>compileAndLink\<close> returns the driver's verdict on linking the empty
  program, and the following \<open>bindState\<close> returns that same value. The two results
  that the claim names never occur together.
\<close>

theorem empty_sources_are_linked:
  assumes "noFault d" and "\<forall>i<MAX_SHADER_TYPES. m_shaderSources s i = []"
  shows "fst (compileAndLink d s) = Returned (createProgram d \<noteq> 0 \<and> linkStatus d)
       \<and> fst (bindState d clock (snd (compileAndLink d s))) =
           Returned (createProgram d \<noteq> 0 \<and> linkStatus d,
                     if createProgram d \<noteq> 0 \<and> linkStatus d
                     then m_attribLocations (snd (compileAndLink d s))
                     else VertexAttribLocations_ctor (-1) (-1))"
proof -
  have ok: "\<forall>i<MAX_SHADER_TYPES. stageCompiles d s i"
    using assms(2) by (simp add: stageCompiles_def stageAttempted_def)
  note cl = compileAndLink_noFault[OF assms(1)]
  note c2 = compileAndLink2_noFault[OF assms(1), of s]
  have r: "fst (compileAndLink d s) = Returned (createProgram d \<noteq> 0 \<and> linkStatus d)"
    using ok by (simp add: cl c2(1) list_all_stages)
  have l: "m_linked (snd (compileAndLink d s)) = (createProgram d \<noteq> 0 \<and> linkStatus d)"
    using ok by (simp add: cl c2(2) list_all_stages)
  have p: "m_program (snd (compileAndLink d s)) = createProgram d"
    by (simp add: cl c2(3))
  have nt: "\<not> throws d (glUseProgram 0)" using assms(1) by (simp add: noFault_def)
  show ?thesis
  proof (cases "createProgram d \<noteq> 0 \<and> linkStatus d")
    case True
    then show ?thesis
      using r bindState_linked[OF assms(1), of "snd (compileAndLink d s)" clock] l p by simp
  next
    case False
    then have "m_program (snd (compileAndLink d s)) = 0 \<or> \<not> m_linked (snd (compileAndLink d s))"
      using l by simp
    from bindState_unlinked[OF nt this, of clock] r False show ?thesis by auto
  qed
qed

theorem empty_sources_are_linked_witness:
  "noFault quietDriver
   \<and> m_shaderSources CShader_ctor 0 = [] \<and> m_shaderSources CShader_ctor 1 = []
   \<and> m_shaderSources CShader_ctor 2 = []
   \<and> fst (compileAndLink quietDriver CShader_ctor) = Returned True
   \<and> fst (bindState quietDriver (\<lambda>i. 0) (snd (compileAndLink quietDriver CShader_ctor)))
       = Returned (True, m_attribLocations (snd (compileAndLink quietDriver CShader_ctor)))"
proof -
  have h2: "\<forall>i<MAX_SHADER_TYPES. m_shaderSources CShader_ctor i = []"
    by (simp add: CShader_ctor_def)
  have q: "createProgram quietDriver \<noteq> 0 \<and> linkStatus quietDriver"
    by (simp add: quietDriver_def)
  show ?thesis
    using noFault_quiet q empty_sources_are_linked [OF noFault_quiet h2, of "\<lambda>i. 0"]
    by (simp add: CShader_ctor_def)
qed

section \<open>A failed attempt\<close>

text \<open>
  When the driver raises no exception, a failed attempt leaves the link-status flag
  false, and \<open>bindState\<close> then returns false with both attribute locations at -1 and
  leaves the flag false.
\<close>

lemma failed_attempt_unbound_without_fault:
  assumes "noFault d" and "fst (compileAndLink d s) = Returned False"
    and "\<not> throws d' (glUseProgram 0)"
  shows "\<not> m_linked (snd (compileAndLink d s))"
    and "fst (bindState d' clock (snd (compileAndLink d s))) =
           Returned (False, VertexAttribLocations_ctor (-1) (-1))"
    and "\<not> m_linked (snd (bindState d' clock (snd (compileAndLink d s))))"
proof -
  note cl = compileAndLink_noFault[OF assms(1)]
  note c2 = compileAndLink2_noFault[OF assms(1), of s]
  show l: "\<not> m_linked (snd (compileAndLink d s))"
    using assms(2) by (simp add: cl c2(1) c2(2))
  then have "m_program (snd (compileAndLink d s)) = 0 \<or> \<not> m_linked (snd (compileAndLink d s))"
    by simp
  note b = bindState_unlinked[OF assms(3) this, of clock]
  show "fst (bindState d' clock (snd (compileAndLink d s))) =
           Returned (False, VertexAttribLocations_ctor (-1) (-1))"
    by (simp add: b)
  show "\<not> m_linked (snd (bindState d' clock (snd (compileAndLink d s))))"
    using l by (simp add: b)
qed

lemmas run =
  compileAndLink_def compileAndLink2_def deactivateProgram_def compileAndAttachShader_def
  linkAndValidateProgram_def setupProgramParameters_def isShaderTypeAvailable_def
  toGlShaderType_def getShaderTypeName_def TYPE_VERTEX_def TYPE_GEOMETRY_def
  TYPE_FRAGMENT_def stages3 exec

lemma vertexOnly_eq:
  "vertexOnly = CShader_ctor\<lparr>m_shaderSources := (\<lambda>i. [])(0 := ''void main(){}'')\<rparr>"
  by (simp add: vertexOnly_def setShaderSource_def MAX_SHADER_TYPES_def CShader_ctor_def)

lemma faultAtValidate_run:
  "fst (compileAndLink2 faultAtValidate vertexOnly) = Thrown"
  "m_linked (snd (compileAndLink2 faultAtValidate vertexOnly))"
  "m_program (snd (compileAndLink2 faultAtValidate vertexOnly)) = 1"
  "m_activeUniforms (snd (compileAndLink2 faultAtValidate vertexOnly)) = []"
  "m_attribLocations (snd (compileAndLink2 faultAtValidate vertexOnly))
     = VertexAttribLocations_ctor (-1) (-1)"
  by (simp_all add: run faultAtValidate_def quietDriver_def vertexOnly_eq
        CShader_ctor_def)

text \<open>
  Claim C8 says that after any \<open>compileAndLink\<close> call that returns false the
  link-status flag is false and \<open>bindState\<close> returns false. When the driver raises an
  exception after the link status has been read (here in \<open>glValidateProgram\<close>), the
  \<open>catch\<close> block returns false and replaces the log, but the flag stays true and the
  program object stays: the following \<open>bindState\<close> uses the program and returns true.
\<close>

theorem fault_after_link_leaves_program_bound:
  "fst (compileAndLink faultAtValidate vertexOnly) = Returned False
   \<and> m_linked (snd (compileAndLink faultAtValidate vertexOnly))
   \<and> getBuildLog (snd (compileAndLink faultAtValidate vertexOnly)) = [Text criticalError]
   \<and> fst (bindState faultAtValidate (\<lambda>i. 0) (snd (compileAndLink faultAtValidate vertexOnly)))
       = Returned (True, VertexAttribLocations_ctor (-1) (-1))"
proof -
  obtain r t where rt: "compileAndLink2 faultAtValidate vertexOnly = (r, t)"
    by (cases "compileAndLink2 faultAtValidate vertexOnly")
  with faultAtValidate_run have f: "r = Thrown" "m_linked t" "m_program t = 1"
    "m_activeUniforms t = []" "m_attribLocations t = VertexAttribLocations_ctor (-1) (-1)"
    by simp_all
  have c: "compileAndLink faultAtValidate vertexOnly =
             (Returned False, t\<lparr>m_log := [Text criticalError]\<rparr>)"
    by (simp add: compileAndLink_def rt f(1))
  have nt: "\<not> throws faultAtValidate (glUseProgram p)" for p
    by (simp add: faultAtValidate_def)
  show ?thesis
    by (simp add: c f getBuildLog_def bindState_def rd_def seq_gl nt seq_ret ret_def)
qed

theorem fault_after_link_leaves_program_bound_witness:
  "fst (compileAndLink faultAtValidate vertexOnly) = Returned False
   \<and> fst (bindState faultAtValidate (\<lambda>i. 0) (snd (compileAndLink faultAtValidate vertexOnly)))
       \<noteq> Returned (False, VertexAttribLocations_ctor (-1) (-1))"
  using fault_after_link_leaves_program_bound by simp

section \<open>Migration across a relink\<close>

text \<open>
  Claim C4. Let the old table hold each pair of a name and a type at most once. Then
  for every old-table entry and every new-table entry with equal name and equal type,
  \<open>setupRememberedUniformState\<close> leaves in the new entry's slot a copy of the old
  entry at the new entry's own location: the old payload, the new location. Every new
  entry that no old entry matches in name and type is left as it is, and the table
  keeps its length. For a relink, that is, a call of \<open>compileAndLink\<close> that returns
  true with a driver that raises no exception: the table the shader object held
  before the call becomes the old table, each entry of the table reflected from the
  driver (a freshly constructed entry with the reported name, type and location) that
  an old entry matches in name and type ends as the copy of that old entry at the
  reflected location, and each other reflected entry ends as constructed, with its
  default payload.
\<close>

theorem migration_by_name_and_type:
  "(distinctKeys (m_oldUniforms s) \<longrightarrow>
      length (m_activeUniforms (setupRememberedUniformState s)) = length (m_activeUniforms s)
      \<and> (\<forall>j < length (m_activeUniforms s).
           (\<forall>old \<in> set (m_oldUniforms s).
              sameKey old (m_activeUniforms s ! j) \<longrightarrow>
                m_activeUniforms (setupRememberedUniformState s) ! j =
                  CUniform_copy old (m_location (m_activeUniforms s ! j)))
           \<and> ((\<forall>old \<in> set (m_oldUniforms s). \<not> sameKey old (m_activeUniforms s ! j)) \<longrightarrow>
                m_activeUniforms (setupRememberedUniformState s) ! j = m_activeUniforms s ! j)))
   \<and> (noFault d \<and> fst (compileAndLink d t) = Returned True
      \<and> distinctKeys (m_activeUniforms t) \<longrightarrow>
      m_oldUniforms (snd (compileAndLink d t)) = m_activeUniforms t
      \<and> length (m_activeUniforms (snd (compileAndLink d t))) = length (reflectedUniforms d)
      \<and> (\<forall>j < length (reflectedUniforms d).
           (\<forall>old \<in> set (m_activeUniforms t).
              sameKey old (reflectedUniforms d ! j) \<longrightarrow>
                m_activeUniforms (snd (compileAndLink d t)) ! j =
                  CUniform_copy old (m_location (reflectedUniforms d ! j)))
           \<and> ((\<forall>old \<in> set (m_activeUniforms t). \<not> sameKey old (reflectedUniforms d ! j)) \<longrightarrow>
                m_activeUniforms (snd (compileAndLink d t)) ! j = reflectedUniforms d ! j)))"
proof (intro conjI impI)
  assume dk: "distinctKeys (m_oldUniforms s)"
  show "length (m_activeUniforms (setupRememberedUniformState s)) = length (m_activeUniforms s)"
    by (simp add: setupRememberedUniformState_def rememberAll_length)
  show "\<forall>j < length (m_activeUniforms s).
           (\<forall>old \<in> set (m_oldUniforms s).
              sameKey old (m_activeUniforms s ! j) \<longrightarrow>
                m_activeUniforms (setupRememberedUniformState s) ! j =
                  CUniform_copy old (m_location (m_activeUniforms s ! j)))
           \<and> ((\<forall>old \<in> set (m_oldUniforms s). \<not> sameKey old (m_activeUniforms s ! j)) \<longrightarrow>
                m_activeUniforms (setupRememberedUniformState s) ! j = m_activeUniforms s ! j)"
    using rememberAll_distinct[OF dk]
    by (simp add: setupRememberedUniformState_def)
next
  assume a: "noFault d \<and> fst (compileAndLink d t) = Returned True
      \<and> distinctKeys (m_activeUniforms t)"
  then have nf: "noFault d" and dk: "distinctKeys (m_activeUniforms t)" by simp_all
  have ok: "createProgram d \<noteq> 0 \<and> list_all (stageCompiles d t) [0..<MAX_SHADER_TYPES]
            \<and> linkStatus d"
    using a by (simp add: compileAndLink_noFault[OF nf] compileAndLink2_noFault(1)[OF nf])
  have tab: "m_activeUniforms (snd (compileAndLink d t)) =
               rememberAll (m_activeUniforms t) (reflectedUniforms d)"
    and old: "m_oldUniforms (snd (compileAndLink d t)) = m_activeUniforms t"
    using ok by (simp_all add: compileAndLink_state[OF nf])
  show "m_oldUniforms (snd (compileAndLink d t)) = m_activeUniforms t" by (rule old)
  show "length (m_activeUniforms (snd (compileAndLink d t))) = length (reflectedUniforms d)"
    by (simp add: tab rememberAll_length)
  show "\<forall>j < length (reflectedUniforms d).
           (\<forall>old \<in> set (m_activeUniforms t).
              sameKey old (reflectedUniforms d ! j) \<longrightarrow>
                m_activeUniforms (snd (compileAndLink d t)) ! j =
                  CUniform_copy old (m_location (reflectedUniforms d ! j)))
           \<and> ((\<forall>old \<in> set (m_activeUniforms t). \<not> sameKey old (reflectedUniforms d ! j)) \<longrightarrow>
                m_activeUniforms (snd (compileAndLink d t)) ! j = reflectedUniforms d ! j)"
    using rememberAll_distinct[OF dk] by (simp add: tab)
qed

text \<open>
  The scenario of the specification: \<open>foo\<close> (FloatVec3) held \<open>(1, 2, 3)\<close> at location
  3 and is reflected at location 7, next to a new uniform \<open>bar\<close>; after migration, and
  after a relink, \<open>foo\<close> holds \<open>(1, 2, 3)\<close> at location 7 and \<open>bar\<close> is as constructed.
\<close>

lemma stageCompiles_fooProgram:
  "\<forall>i<MAX_SHADER_TYPES. stageCompiles relinkDriver fooProgram i"
  by (auto simp: stageCompiles_def stageAttempted_def isShaderTypeAvailable_def
        fooProgram_def setShaderSource_def withTable_def CShader_ctor_def MAX_SHADER_TYPES_def
        TYPE_VERTEX_def TYPE_GEOMETRY_def TYPE_FRAGMENT_def relinkDriver_def quietDriver_def)

lemma reflected_relinkDriver:
  "reflectedUniforms relinkDriver =
     [CUniform_ctor ''foo'' GL_FLOAT_VEC3 7, CUniform_ctor ''bar'' GL_FLOAT 2]"
  by (simp add: reflectedUniforms_def relinkDriver_def quietDriver_def upt_rec)

theorem migration_by_name_and_type_witness:
  "distinctKeys (m_oldUniforms (withTable
        [(CUniform_ctor ''foo'' GL_FLOAT_VEC3 3)\<lparr>m_data := vec123\<rparr>]
        [CUniform_ctor ''foo'' GL_FLOAT_VEC3 7, CUniform_ctor ''bar'' GL_FLOAT 2]))
   \<and> m_activeUniforms (setupRememberedUniformState (withTable
        [(CUniform_ctor ''foo'' GL_FLOAT_VEC3 3)\<lparr>m_data := vec123\<rparr>]
        [CUniform_ctor ''foo'' GL_FLOAT_VEC3 7, CUniform_ctor ''bar'' GL_FLOAT 2]))
     = [\<lparr>m_name = ''foo'', m_type = GL_FLOAT_VEC3, m_location = 7, m_data = vec123\<rparr>,
        CUniform_ctor ''bar'' GL_FLOAT 2]
   \<and> noFault relinkDriver
   \<and> fst (compileAndLink relinkDriver fooProgram) = Returned True
   \<and> distinctKeys (m_activeUniforms fooProgram)
   \<and> m_oldUniforms (snd (compileAndLink relinkDriver fooProgram))
     = [(CUniform_ctor ''foo'' GL_FLOAT_VEC3 3)\<lparr>m_data := vec123\<rparr>]
   \<and> m_activeUniforms (snd (compileAndLink relinkDriver fooProgram))
     = [\<lparr>m_name = ''foo'', m_type = GL_FLOAT_VEC3, m_location = 7, m_data = vec123\<rparr>,
        CUniform_ctor ''bar'' GL_FLOAT 2]"
proof -
  let ?old = "(CUniform_ctor ''foo'' GL_FLOAT_VEC3 3)\<lparr>m_data := vec123\<rparr>"
  let ?s = "withTable [?old]
              [CUniform_ctor ''foo'' GL_FLOAT_VEC3 7, CUniform_ctor ''bar'' GL_FLOAT 2]"
  have nf: "noFault relinkDriver"
    by (simp add: noFault_def relinkDriver_def quietDriver_def)
  have p: "createProgram relinkDriver \<noteq> 0" "linkStatus relinkDriver"
    by (simp_all add: relinkDriver_def quietDriver_def)
  have ok: "fst (compileAndLink relinkDriver fooProgram) = Returned True"
    using stageCompiles_fooProgram p
    by (simp add: compileAndLink_noFault[OF nf] compileAndLink2_noFault(1)[OF nf]
          list_all_stages)
  have f: "m_oldUniforms ?s = [?old]"
    "m_activeUniforms ?s = [CUniform_ctor ''foo'' GL_FLOAT_VEC3 7, CUniform_ctor ''bar'' GL_FLOAT 2]"
    "m_activeUniforms fooProgram = [?old]"
    by (simp_all add: withTable_def CShader_ctor_def fooProgram_def setShaderSource_def
          MAX_SHADER_TYPES_def)
  have dk: "distinctKeys [?old]" by (simp add: distinctKeys_def)
  have k: "sameKey ?old (CUniform_ctor ''foo'' GL_FLOAT_VEC3 7)"
    "\<not> sameKey ?old (CUniform_ctor ''bar'' GL_FLOAT 2)"
    by (simp_all add: sameKey_def ctor_fields)
  have c: "CUniform_copy ?old (m_location (CUniform_ctor ''foo'' GL_FLOAT_VEC3 7)) =
      \<lparr>m_name = ''foo'', m_type = GL_FLOAT_VEC3, m_location = 7, m_data = vec123\<rparr>"
    by (simp add: CUniform_copy_def ctor_fields)
  note T = migration_by_name_and_type [of ?s relinkDriver fooProgram]
  have A: "m_activeUniforms (setupRememberedUniformState ?s)
     = [\<lparr>m_name = ''foo'', m_type = GL_FLOAT_VEC3, m_location = 7, m_data = vec123\<rparr>,
        CUniform_ctor ''bar'' GL_FLOAT 2]"
    using T dk k c by (intro nth_equalityI) (auto simp: f less_Suc_eq)
  have B: "m_activeUniforms (snd (compileAndLink relinkDriver fooProgram))
     = [\<lparr>m_name = ''foo'', m_type = GL_FLOAT_VEC3, m_location = 7, m_data = vec123\<rparr>,
        CUniform_ctor ''bar'' GL_FLOAT 2]"
    using T nf ok dk k c by (intro nth_equalityI) (auto simp: f less_Suc_eq reflected_relinkDriver)
  have C: "m_oldUniforms (snd (compileAndLink relinkDriver fooProgram)) = [?old]"
    using T nf ok dk by (simp add: f)
  show ?thesis using A B C nf ok dk by (simp add: f)
qed

section \<open>The time uniform\<close>

lemma applyToGL_noFault:
  assumes "noFault d"
  shows "fst (applyToGL d u s) = Returned ()"
    and "m_activeUniforms (snd (applyToGL d u s)) = m_activeUniforms s"
  using assms by (simp_all add: applyToGL_def noFault_def ret_def gl_def split: option.splits)

lemma bindUniforms_table:
  assumes "noFault d"
  shows "distinct is \<Longrightarrow>
         length (m_activeUniforms (snd (bindUniforms d clock is s))) = length (m_activeUniforms s)
         \<and> (\<forall>j < length (m_activeUniforms s).
               m_activeUniforms (snd (bindUniforms d clock is s)) ! j =
                 (if j \<in> set is then updateTimeVariable (clock j) (m_activeUniforms s ! j)
                  else m_activeUniforms s ! j))"
proof (induction "is" arbitrary: s)
  case Nil
  show ?case by (simp add: ret_def)
next
  case (Cons i rest)
  let ?s1 = "s\<lparr>m_activeUniforms :=
           (m_activeUniforms s)[i := updateTimeVariable (clock i) (m_activeUniforms s ! i)]\<rparr>"
  let ?s2 = "snd (applyToGL d (m_activeUniforms ?s1 ! i) ?s1)"
  have step: "bindUniforms d clock (i # rest) s = bindUniforms d clock rest ?s2"
    by (simp add: seq_assign seq_rd seq_fst[OF applyToGL_noFault(1)[OF assms]])
  have t2: "m_activeUniforms ?s2 =
      (m_activeUniforms s)[i := updateTimeVariable (clock i) (m_activeUniforms s ! i)]"
    by (simp add: applyToGL_noFault(2)[OF assms])
  have d: "distinct rest" "i \<notin> set rest" using Cons.prems by simp_all
  have ne: "j \<in> set rest \<Longrightarrow> i \<noteq> j" for j using d(2) by auto
  from Cons.IH[OF d(1), of ?s2] show ?case
    unfolding step t2 using d(2) by (auto simp: nth_list_update dest: ne)
qed

lemma bindState_overwrites_time:
  assumes "noFault d" and "m_program s \<noteq> 0" and "m_linked s"
    and "j < length (m_activeUniforms s)"
    and "m_type (m_activeUniforms s ! j) = GL_FLOAT"
    and "isTimeName (m_name (m_activeUniforms s ! j))"
  shows "m_activeUniforms (snd (bindState d clock s)) ! j =
           (m_activeUniforms s ! j)\<lparr>m_data := (m_data (m_activeUniforms s ! j))[0 := clock j]\<rparr>"
proof -
  have nf: "\<And>c. \<not> throws d c" using assms(1) by (simp add: noFault_def)
  have b: "fst (bindUniforms d clock xs t) = Returned ()" for xs t
    using bindUniforms_noFault[OF assms(1)] by simp
  let ?s1 = "s\<lparr>glCalls := glCalls s @ [glUseProgram (m_program s)]\<rparr>"
  have "snd (bindState d clock s) =
          snd (bindUniforms d clock [0..<length (m_activeUniforms s)] ?s1)"
    using assms(2,3) by (simp add: bindState_def rd_def seq_gl nf seq_fst[OF b] ret_def)
  moreover have "m_activeUniforms
       (snd (bindUniforms d clock [0..<length (m_activeUniforms s)] ?s1)) ! j =
       updateTimeVariable (clock j) (m_activeUniforms s ! j)"
    using bindUniforms_table[OF assms(1), of "[0..<length (m_activeUniforms s)]" clock ?s1]
      assms(4) by simp
  ultimately show ?thesis
    using assms(5,6) by (simp add: updateTimeVariable_def setValueAsFloat_def)
qed

lemma isTimeName_time: "isTimeName ''time''" "isTimeName ''Time''"
  by code_simp+

lemma applyToGL_exact:
  assumes "noFault d"
  shows "applyToGL d u s = (Returned (), s\<lparr>glCalls := glCalls s @ uniformPush u\<rparr>)"
  using assms
  by (simp add: applyToGL_def uniformPush_def noFault_def ret_def gl_def split: option.splits)

lemma bindUniforms_calls:
  assumes "noFault d"
  shows "distinct is \<Longrightarrow> \<forall>i\<in>set is. i < length (m_activeUniforms s) \<Longrightarrow>
         glCalls (snd (bindUniforms d clock is s)) =
           glCalls s @
           concat (map (\<lambda>i. uniformPush (updateTimeVariable (clock i) (m_activeUniforms s ! i)))
                       is)"
proof (induction "is" arbitrary: s)
  case Nil
  show ?case by (simp add: ret_def)
next
  case (Cons i rest)
  let ?v = "updateTimeVariable (clock i) (m_activeUniforms s ! i)"
  let ?s2 = "s\<lparr>m_activeUniforms := (m_activeUniforms s)[i := ?v],
               glCalls := glCalls s @ uniformPush ?v\<rparr>"
  have i: "i < length (m_activeUniforms s)" using Cons.prems(2) by simp
  have ap: "seq (applyToGL d u) f t = f () (t\<lparr>glCalls := glCalls t @ uniformPush u\<rparr>)"
    for u f t
    by (simp add: seq_def applyToGL_exact[OF assms])
  have step: "bindUniforms d clock (i # rest) s = bindUniforms d clock rest ?s2"
    using i by (simp add: seq_assign seq_rd ap)
  have d: "distinct rest" "i \<notin> set rest" using Cons.prems(1) by simp_all
  have r: "\<forall>k\<in>set rest. k < length (m_activeUniforms ?s2)" using Cons.prems(2) by simp
  have same: "map (\<lambda>k. uniformPush (updateTimeVariable (clock k) (m_activeUniforms ?s2 ! k))) rest
            = map (\<lambda>k. uniformPush (updateTimeVariable (clock k) (m_activeUniforms s ! k))) rest"
  proof (intro map_cong refl)
    fix k assume "k \<in> set rest"
    then have "i \<noteq> k" using d(2) by auto
    then show "uniformPush (updateTimeVariable (clock k) (m_activeUniforms ?s2 ! k))
             = uniformPush (updateTimeVariable (clock k) (m_activeUniforms s ! k))"
      by simp
  qed
  show ?case
    unfolding step Cons.IH[OF d(1) r] same by simp
qed

lemma bindState_calls:
  assumes "noFault d" and "m_program s \<noteq> 0" and "m_linked s"
  shows "callsSince s (snd (bindState d clock s)) =
           glUseProgram (m_program s) #
           concat (map (\<lambda>i. uniformPush (updateTimeVariable (clock i) (m_activeUniforms s ! i)))
                       [0..<length (m_activeUniforms s)])"
proof -
  have nf: "\<And>c. \<not> throws d c" using assms(1) by (simp add: noFault_def)
  have b: "fst (bindUniforms d clock xs t) = Returned ()" for xs t
    using bindUniforms_noFault[OF assms(1)] by simp
  let ?s1 = "s\<lparr>glCalls := glCalls s @ [glUseProgram (m_program s)]\<rparr>"
  have "snd (bindState d clock s) =
          snd (bindUniforms d clock [0..<length (m_activeUniforms s)] ?s1)"
    using assms(2,3) by (simp add: bindState_def rd_def seq_gl nf seq_fst[OF b] ret_def)
  then show ?thesis
    using bindUniforms_calls[OF assms(1), of "[0..<length (m_activeUniforms s)]" ?s1 clock]
    by (simp add: callsSince_def)
qed

lemma bindState_table:
  assumes "noFault d" and "m_program s \<noteq> 0" and "m_linked s"
  shows "m_activeUniforms (snd (bindState d clock s)) =
           map (\<lambda>i. updateTimeVariable (clock i) (m_activeUniforms s ! i))
               [0..<length (m_activeUniforms s)]"
proof -
  have nf: "\<And>c. \<not> throws d c" using assms(1) by (simp add: noFault_def)
  have b: "fst (bindUniforms d clock xs t) = Returned ()" for xs t
    using bindUniforms_noFault[OF assms(1)] by simp
  let ?s1 = "s\<lparr>glCalls := glCalls s @ [glUseProgram (m_program s)]\<rparr>"
  have "snd (bindState d clock s) =
          snd (bindUniforms d clock [0..<length (m_activeUniforms s)] ?s1)"
    using assms(2,3) by (simp add: bindState_def rd_def seq_gl nf seq_fst[OF b] ret_def)
  then show ?thesis
    using bindUniforms_table[OF assms(1), of "[0..<length (m_activeUniforms s)]" clock ?s1]
    by (auto intro!: nth_equalityI)
qed

text \<open>
  Claim C3, amended. A Float scalar uniform whose name is \<open>time\<close> (in any letter
  case) gets no special treatment from \<open>setUniform\<close> or from migration: a
  \<open>setUniform\<close> call on a linked program, with the index in range and a value that
  matches the stored entry in name, type and location, replaces the stored entry; and
  migration, whatever else the two tables hold, replaces it by a copy, at its own
  location, of the last old entry with its name and type. It is kept away from the
  user by the editor only (\<open>acceptsUniform\<close> refuses it). \<open>bindState\<close> on a linked
  program, with a driver that raises no exception, overwrites the first component of
  its payload with the timer reading and then pushes it: the driver calls of
  \<open>bindState\<close> are \<open>glUseProgram\<close> followed by the \<open>glUniform\<close> calls for the table as
  it is after the overwriting, so that for a location other than \<open>-1\<close> the driver
  receives \<open>glUniform\<close> at that location with the timer reading as value.
\<close>

theorem time_uniform_not_special:
  assumes "m_type stored = GL_FLOAT" and "isTimeName (m_name stored)"
  shows "(m_linked s \<and> 0 \<le> index \<and> index < int (length (m_activeUniforms s))
          \<and> m_activeUniforms s ! nat index = stored
          \<and> m_name u = m_name stored \<and> m_type u = m_type stored
          \<and> m_location u = m_location stored
          \<longrightarrow> m_activeUniforms (setUniform index u s) ! nat index = u)
       \<and> (j < length (m_activeUniforms s) \<and> m_activeUniforms s ! j = stored
          \<and> m_oldUniforms s = before @ old # after
          \<and> (\<forall>x \<in> set after. \<not> sameKey x old) \<and> sameKey old stored
          \<longrightarrow> m_activeUniforms (setupRememberedUniformState s) ! j
                = CUniform_copy old (m_location stored))
       \<and> \<not> acceptsUniform stored
       \<and> (noFault d \<and> m_program s \<noteq> 0 \<and> m_linked s
          \<and> j < length (m_activeUniforms s) \<and> m_activeUniforms s ! j = stored
          \<longrightarrow> m_activeUniforms (snd (bindState d clock s)) ! j
                = stored\<lparr>m_data := (m_data stored)[0 := clock j]\<rparr>
              \<and> callsSince s (snd (bindState d clock s))
                = glUseProgram (m_program s) #
                  concat (map uniformPush (m_activeUniforms (snd (bindState d clock s))))
              \<and> (m_location stored \<noteq> -1 \<and> m_data stored \<noteq> []
                 \<longrightarrow> glUniform (m_location stored) GL_FLOAT [clock j]
                       \<in> set (callsSince s (snd (bindState d clock s)))))"
proof -
  have a: "m_linked s \<and> 0 \<le> index \<and> index < int (length (m_activeUniforms s))
          \<and> m_activeUniforms s ! nat index = stored
          \<and> m_name u = m_name stored \<and> m_type u = m_type stored
          \<and> m_location u = m_location stored
          \<longrightarrow> m_activeUniforms (setUniform index u s) ! nat index = u"
    by (auto simp: setUniform_def Let_def)
  have b: "m_activeUniforms (setupRememberedUniformState s) ! j
             = CUniform_copy old (m_location stored)"
    if "j < length (m_activeUniforms s)" "m_activeUniforms s ! j = stored"
      "m_oldUniforms s = before @ old # after" "\<forall>x \<in> set after. \<not> sameKey x old"
      "sameKey old stored"
    using that(1,2) find_last_match[OF that(3,4,5)]
    by (simp add: setupRememberedUniformState_def rememberAll_map)
  have c: "\<not> acceptsUniform stored"
    using assms by (simp add: acceptsUniform_def)
  have e1: "m_activeUniforms (snd (bindState d clock s)) ! j
                = stored\<lparr>m_data := (m_data stored)[0 := clock j]\<rparr>"
    if "noFault d" "m_program s \<noteq> 0" "m_linked s"
      "j < length (m_activeUniforms s)" "m_activeUniforms s ! j = stored"
    using assms that bindState_overwrites_time [of d s j clock] by auto
  have e2: "callsSince s (snd (bindState d clock s))
                = glUseProgram (m_program s) #
                  concat (map uniformPush (m_activeUniforms (snd (bindState d clock s))))"
    if "noFault d" "m_program s \<noteq> 0" "m_linked s"
    by (simp add: bindState_calls[OF that] bindState_table[OF that] comp_def)
  have e3: "glUniform (m_location stored) GL_FLOAT [clock j]
              \<in> set (callsSince s (snd (bindState d clock s)))"
    if "noFault d" "m_program s \<noteq> 0" "m_linked s"
      "j < length (m_activeUniforms s)" "m_activeUniforms s ! j = stored"
      "m_location stored \<noteq> -1" "m_data stored \<noteq> []"
  proof -
    have "uniformPush (stored\<lparr>m_data := (m_data stored)[0 := clock j]\<rparr>)
            = [glUniform (m_location stored) GL_FLOAT [clock j]]"
      using assms(1) that(6,7)
      by (cases "m_data stored") (simp_all add: uniformPush_def uniformCells_def gl_types)
    moreover have "stored\<lparr>m_data := (m_data stored)[0 := clock j]\<rparr>
            \<in> set (m_activeUniforms (snd (bindState d clock s)))"
      using e1[OF that(1-5)] that(4) bindState_table[OF that(1-3), of clock]
      by (metis (no_types, lifting) diff_zero length_map length_upt nth_mem)
    ultimately show ?thesis
      unfolding e2[OF that(1-3)] by force
  qed
  show ?thesis using a b c e1 e2 e3 by blast
qed

theorem time_uniform_not_special_witness:
  "m_type (CUniform_ctor ''time'' GL_FLOAT 5) = GL_FLOAT
   \<and> isTimeName (m_name (CUniform_ctor ''time'' GL_FLOAT 5))
   \<and> m_activeUniforms (setUniform 0 ((CUniform_ctor ''time'' GL_FLOAT 5)\<lparr>m_data := vec123\<rparr>)
        (withTable [(CUniform_ctor ''time'' GL_FLOAT 2)\<lparr>m_data := vec123\<rparr>]
                   [CUniform_ctor ''time'' GL_FLOAT 5])) ! nat 0
      = (CUniform_ctor ''time'' GL_FLOAT 5)\<lparr>m_data := vec123\<rparr>
   \<and> m_activeUniforms (setupRememberedUniformState
        (withTable [(CUniform_ctor ''time'' GL_FLOAT 2)\<lparr>m_data := vec123\<rparr>]
                   [CUniform_ctor ''time'' GL_FLOAT 5])) ! 0
      = \<lparr>m_name = ''time'', m_type = GL_FLOAT, m_location = 5, m_data = vec123\<rparr>
   \<and> \<not> acceptsUniform (CUniform_ctor ''time'' GL_FLOAT 5)
   \<and> m_activeUniforms (snd (bindState quietDriver (\<lambda>i. 0x40000000)
        (withTable [(CUniform_ctor ''time'' GL_FLOAT 2)\<lparr>m_data := vec123\<rparr>]
                   [CUniform_ctor ''time'' GL_FLOAT 5]))) ! 0
      = (CUniform_ctor ''time'' GL_FLOAT 5)\<lparr>m_data :=
          (m_data (CUniform_ctor ''time'' GL_FLOAT 5))[0 := 0x40000000]\<rparr>
   \<and> glUniform 5 GL_FLOAT [0x40000000]
       \<in> set (callsSince
          (withTable [(CUniform_ctor ''time'' GL_FLOAT 2)\<lparr>m_data := vec123\<rparr>]
                     [CUniform_ctor ''time'' GL_FLOAT 5])
          (snd (bindState quietDriver (\<lambda>i. 0x40000000)
             (withTable [(CUniform_ctor ''time'' GL_FLOAT 2)\<lparr>m_data := vec123\<rparr>]
                        [CUniform_ctor ''time'' GL_FLOAT 5]))))"
proof -
  let ?t = "CUniform_ctor ''time'' GL_FLOAT 5"
  let ?old = "(CUniform_ctor ''time'' GL_FLOAT 2)\<lparr>m_data := vec123\<rparr>"
  let ?s = "withTable [?old] [?t]"
  have h1: "m_type ?t = GL_FLOAT" by (simp add: ctor_fields)
  have h2: "isTimeName (m_name ?t)" by (simp add: ctor_fields isTimeName_time)
  have f: "m_linked ?s" "m_program ?s \<noteq> 0" "m_activeUniforms ?s = [?t]"
    "m_oldUniforms ?s = [] @ ?old # []"
    by (simp_all add: withTable_def CShader_ctor_def)
  have k: "sameKey ?old ?t" "m_location ?t = 5" "m_location ?t \<noteq> -1" "m_data ?t \<noteq> []"
    "CUniform_copy ?old 5 = \<lparr>m_name = ''time'', m_type = GL_FLOAT, m_location = 5, m_data = vec123\<rparr>"
    using ctor_data_len [of "''time''" GL_FLOAT 5]
    by (auto simp add: sameKey_def ctor_fields CUniform_copy_def)
  let ?u = "?t\<lparr>m_data := vec123\<rparr>"
  let ?clock = "\<lambda>i::nat. 0x40000000 :: 32 word"
  note T = time_uniform_not_special [OF h1 h2, of ?s 0 ?u 0 "[]" ?old "[]" quietDriver ?clock]
  have pre:
    "m_linked ?s \<and> (0::int) \<le> 0 \<and> 0 < int (length (m_activeUniforms ?s))
     \<and> m_activeUniforms ?s ! nat 0 = ?t
     \<and> m_name ?u = m_name ?t \<and> m_type ?u = m_type ?t \<and> m_location ?u = m_location ?t"
    "0 < length (m_activeUniforms ?s) \<and> m_activeUniforms ?s ! 0 = ?t
     \<and> m_oldUniforms ?s = [] @ ?old # []
     \<and> (\<forall>x \<in> set []. \<not> sameKey x ?old) \<and> sameKey ?old ?t"
    "noFault quietDriver \<and> m_program ?s \<noteq> 0 \<and> m_linked ?s
     \<and> 0 < length (m_activeUniforms ?s) \<and> m_activeUniforms ?s ! 0 = ?t"
    "m_location ?t \<noteq> -1 \<and> m_data ?t \<noteq> []"
    using f k noFault_quiet by simp_all
  from T pre have concl:
    "m_activeUniforms (setUniform 0 ?u ?s) ! nat 0 = ?u
     \<and> m_activeUniforms (setupRememberedUniformState ?s) ! 0
         = CUniform_copy ?old (m_location ?t)
     \<and> \<not> acceptsUniform ?t
     \<and> m_activeUniforms (snd (bindState quietDriver ?clock ?s)) ! 0
         = ?t\<lparr>m_data := (m_data ?t)[0 := ?clock 0]\<rparr>
     \<and> glUniform (m_location ?t) GL_FLOAT [?clock 0]
         \<in> set (callsSince ?s (snd (bindState quietDriver ?clock ?s)))"
    by blast
  show ?thesis
    using concl h1 h2 by (simp add: k)
qed

text \<open>
  Claim C3 as stated fails: the stored \<open>time\<close> entry is replaced by a \<open>setUniform\<close>
  call aimed at it, and migration copies the old payload \<open>(1, 2, 3)\<close> into the newly
  reflected \<open>time\<close> entry.
\<close>

theorem time_uniform_counterexample:
  "isTimeName (m_name (CUniform_ctor ''time'' GL_FLOAT 5))
   \<and> m_type (CUniform_ctor ''time'' GL_FLOAT 5) = GL_FLOAT
   \<and> m_activeUniforms (setUniform 0 ((CUniform_ctor ''time'' GL_FLOAT 5)\<lparr>m_data := vec123\<rparr>)
        (withTable [] [CUniform_ctor ''time'' GL_FLOAT 5]))
      = [(CUniform_ctor ''time'' GL_FLOAT 5)\<lparr>m_data := vec123\<rparr>]
   \<and> m_data (CUniform_ctor ''time'' GL_FLOAT 5) \<noteq> vec123
   \<and> m_data (m_activeUniforms (setupRememberedUniformState (withTable
        [(CUniform_ctor ''time'' GL_FLOAT 2)\<lparr>m_data := vec123\<rparr>]
        [CUniform_ctor ''time'' GL_FLOAT 5])) ! 0) = vec123"
proof -
  have "m_data (CUniform_ctor ''time'' GL_FLOAT 5) =
     [float_0_1, float_0_2, float_0_3, float_0_4, 0, 0, 0, 0, 0, 0, 0, 0, 0, 0, 0, 0]"
    by (rule ctor_data_other) (simp_all add: gl_types)
  then show ?thesis
    by (simp add: setUniform_def Let_def setupRememberedUniformState_def withTable_def
          CShader_ctor_def ctor_fields CUniform_copy_def isTimeName_time vec123_def float_bits)
qed

end
